theory Spec2Isabelle
  imports Main "HOL-Library.AList"
begin

section \<open>Wire data exchanged with the Athena client\<close>

text \<open>
  The shapes of \<^verbatim>\<open>@aws-sdk/client-athena\<close> that \<^verbatim>\<open>src/index.tsx\<close> reads. Every
  optional member (\<^verbatim>\<open>x?: T\<close>, \<^verbatim>\<open>T | undefined\<close>) is an \<open>option\<close>, with \<open>None\<close> for
  \<^verbatim>\<open>undefined\<close>. Of \<^verbatim>\<open>$metadata\<close> only \<^verbatim>\<open>httpStatusCode\<close> is read, so it is kept as a
  member of the results output itself.
\<close>

record Datum =
  VarCharValue :: "string option"

record Row =
  Data :: "Datum list option"

record ResultSet =
  Rows :: "Row list option"

record GetQueryResultsCommandOutput =
  httpStatusCode :: "int option"
  ResultSet :: "ResultSet option"
  NextToken :: "string option"

record QueryExecutionStatus =
  State :: "string option"

record QueryExecution =
  Status :: "QueryExecutionStatus option"

record GetQueryExecutionCommandOutput =
  QueryExecution :: "QueryExecution option"

record StartQueryExecutionCommandOutput =
  QueryExecutionId :: "string option"

text \<open>
  The three commands the runner sends, each with the members of its input:
  the query string; the execution id; the execution id and the continuation token.
\<close>

datatype Command =
    StartQueryExecutionCommand string
  | GetQueryExecutionCommand "string option"
  | GetQueryResultsCommand "string option" "string option"

section \<open>Records handed to the batch processor\<close>

text \<open>
  A converted row is the JavaScript object \<^verbatim>\<open>result\<close> of \<^verbatim>\<open>fromRowsToJsonValues\<close>: string
  keys, each holding a string or \<^verbatim>\<open>undefined\<close>. It is kept as an association list with
  one pair per own property, in the order the properties were created; \<open>map_of\<close> reads it
  as the mapping from field name to value (\<open>Some None\<close> is a property holding
  \<^verbatim>\<open>undefined\<close>, \<open>None\<close> is no property).

  \<open>setProperty\<close> is the assignment \<^verbatim>\<open>result[fieldName] = value\<close> on an object created by
  \<^verbatim>\<open>{}\<close>, for a value that is a string or \<^verbatim>\<open>undefined\<close>: an existing property keeps its
  place and takes the new value, a new one is added at the end. The one key that does not
  behave so is \<^verbatim>\<open>__proto__\<close>: the assignment reaches the setter inherited from
  \<^verbatim>\<open>Object.prototype\<close>, which ignores a value that is neither an object nor
  \<^verbatim>\<open>null\<close>, and no property is created.
\<close>

type_synonym JsonValue = "(string \<times> string option) list"

definition setProperty :: "JsonValue \<Rightarrow> string \<Rightarrow> string option \<Rightarrow> JsonValue" where
  "setProperty result fieldName v =
     (if fieldName = ''__proto__'' then result else AList.update fieldName v result)"

section \<open>Errors, observable events, and the world outside the runner\<close>

text \<open>
  Every \<^verbatim>\<open>throw\<close> of \<^verbatim>\<open>src/index.tsx\<close>, the rejection of the scripted client when a queue
  is exhausted, and a rejection of the batch processor, as values. Where the message of
  the source embeds a value, the constructor carries it.
\<close>

datatype error =
    CanOnlyBeUsedOnce
  | ExpectedQueryExecutionId
  | ExpectedQueryExecutionIdAfterStart StartQueryExecutionCommandOutput
  | UnsupportedResponseState "string option"
  | GetQueryResultsFailed GetQueryResultsCommandOutput
  | HeaderRowNotLongEnough
  | ExpectedMore string
  | BatchProcessorRejected string

datatype event =
    Sent Command
  | Slept int
  | Batch "JsonValue list"

text \<open>
  The client is the scripted client of the repository's tests (\<^verbatim>\<open>MockAthenaClient\<close>): one
  queue of canned outputs per command class, replayed in order, and a rejection when the
  queue for the command is empty. Where the test client compares the command's input with
  an expected one, the model appends the command to \<open>trace\<close>, so that a theorem can say
  what was sent and in which order. \<open>trace\<close> also receives each \<^verbatim>\<open>sleep\<close> and each call of
  the batch processor: it is the run's observable history.
\<close>

record world =
  expectedStartQueries :: "StartQueryExecutionCommandOutput list"
  expectedWaitForSuccessfulResults :: "GetQueryExecutionCommandOutput list"
  expectedGetResults :: "GetQueryResultsCommandOutput list"
  trace :: "event list"

definition sendStartQueryExecution ::
  "string \<Rightarrow> world \<Rightarrow> (error + StartQueryExecutionCommandOutput) \<times> world" where
  "sendStartQueryExecution QueryString w =
     (let w1 = w\<lparr>trace := trace w @ [Sent (StartQueryExecutionCommand QueryString)]\<rparr> in
      case expectedStartQueries w1 of
        [] \<Rightarrow> (Inl (ExpectedMore ''expectedStartQueries''), w1)
      | output # rest \<Rightarrow> (Inr output, w1\<lparr>expectedStartQueries := rest\<rparr>))"

definition sendGetQueryExecution ::
  "string option \<Rightarrow> world \<Rightarrow> (error + GetQueryExecutionCommandOutput) \<times> world" where
  "sendGetQueryExecution executionId w =
     (let w1 = w\<lparr>trace := trace w @ [Sent (GetQueryExecutionCommand executionId)]\<rparr> in
      case expectedWaitForSuccessfulResults w1 of
        [] \<Rightarrow> (Inl (ExpectedMore ''expectedWaitForSuccessfulResults''), w1)
      | output # rest \<Rightarrow> (Inr output, w1\<lparr>expectedWaitForSuccessfulResults := rest\<rparr>))"

definition sendGetQueryResults ::
  "string option \<Rightarrow> string option \<Rightarrow> world \<Rightarrow> (error + GetQueryResultsCommandOutput) \<times> world" where
  "sendGetQueryResults executionId token w =
     (let w1 = w\<lparr>trace := trace w @ [Sent (GetQueryResultsCommand executionId token)]\<rparr> in
      case expectedGetResults w1 of
        [] \<Rightarrow> (Inl (ExpectedMore ''expectedGetResults''), w1)
      | output # rest \<Rightarrow> (Inr output, w1\<lparr>expectedGetResults := rest\<rparr>))"

definition sleep :: "int \<Rightarrow> world \<Rightarrow> world" where
  "sleep ms w = w\<lparr>trace := trace w @ [Slept ms]\<rparr>"

section \<open>The runner\<close>

text \<open>
  The fields of \<^verbatim>\<open>class AthenaQuery\<close>; \<^verbatim>\<open>athenaClient\<close> is the \<open>world\<close> passed to every
  method. \<open>batchProcessor\<close> is the caller's callback: it is given the batches of its
  earlier calls (a callback may keep state of its own) and the rows of this call, and
  answers \<open>None\<close> when its promise resolves, \<open>Some reason\<close> when it rejects.
\<close>

record AthenaQuery =
  query :: string
  batchProcessor :: "JsonValue list list \<Rightarrow> JsonValue list \<Rightarrow> string option"
  QueryExecutionId :: "string option"
  sleepMs :: int

definition newAthenaQuery ::
  "string \<Rightarrow> (JsonValue list list \<Rightarrow> JsonValue list \<Rightarrow> string option) \<Rightarrow> int option \<Rightarrow> AthenaQuery" where
  "newAthenaQuery q bp ms =
     \<lparr>query = q, batchProcessor = bp, QueryExecutionId = None,
      sleepMs = (case ms of None \<Rightarrow> 500 | Some n \<Rightarrow> n)\<rparr>"

subsection \<open>Module functions\<close>

definition getState :: "GetQueryExecutionCommandOutput \<Rightarrow> string option" where
  "getState response =
     (case QueryExecution response of
        None \<Rightarrow> None
      | Some qe \<Rightarrow> (case Status qe of None \<Rightarrow> None | Some st \<Rightarrow> State st))"

definition isTerminalState :: "string option \<Rightarrow> bool" where
  "isTerminalState state \<longleftrightarrow> state \<noteq> Some ''QUEUED'' \<and> state \<noteq> Some ''RUNNING''"

text \<open>
  The callback of \<^verbatim>\<open>row?.Data?.forEach((data, index) => ...)\<close>, from \<open>index\<close> on.
  \<^verbatim>\<open>fieldNames[index]\<close> is \<^verbatim>\<open>undefined\<close> beyond the end of the array, and \<^verbatim>\<open>!fieldName\<close> holds
  for \<^verbatim>\<open>undefined\<close> and for the empty string.
\<close>

fun forEachData :: "string list \<Rightarrow> nat \<Rightarrow> Datum list \<Rightarrow> JsonValue \<Rightarrow> error + JsonValue" where
  "forEachData fieldNames index [] result = Inr result"
| "forEachData fieldNames index (data # rest) result =
     (case (if index < length fieldNames then Some (fieldNames ! index) else None) of
        None \<Rightarrow> Inl HeaderRowNotLongEnough
      | Some fieldName \<Rightarrow>
          if fieldName = [] then Inl HeaderRowNotLongEnough
          else forEachData fieldNames (Suc index) rest
                 (setProperty result fieldName (VarCharValue data)))"

definition rowToJsonValue :: "string list \<Rightarrow> Row \<Rightarrow> error + JsonValue" where
  "rowToJsonValue fieldNames row =
     (case Row.Data row of None \<Rightarrow> Inr [] | Some ds \<Rightarrow> forEachData fieldNames 0 ds [])"

fun fromRowsToJsonValues :: "Row list \<Rightarrow> string list \<Rightarrow> error + JsonValue list" where
  "fromRowsToJsonValues [] fieldNames = Inr []"
| "fromRowsToJsonValues (row # rows) fieldNames =
     (case rowToJsonValue fieldNames row of
        Inl e \<Rightarrow> Inl e
      | Inr result \<Rightarrow>
          (case fromRowsToJsonValues rows fieldNames of
             Inl e \<Rightarrow> Inl e
           | Inr results \<Rightarrow> Inr (result # results)))"

text \<open>The decimal digits of an array index, as a template literal prints it.\<close>

fun numberToString :: "nat \<Rightarrow> string" where
  "numberToString n =
     (if n < 10 then [''0123456789'' ! n]
      else numberToString (n div 10) @ [''0123456789'' ! (n mod 10)])"

declare numberToString.simps [simp del]

subsection \<open>Methods\<close>

record GetResultOutput =
  Data :: "JsonValue list"
  NextToken :: "string option"
  fieldNames :: "string list"

text \<open>
  \<^verbatim>\<open>startQuery\<close> stores whatever \<^verbatim>\<open>QueryExecutionId\<close> the response carries, then rejects if
  it is \<^verbatim>\<open>undefined\<close>. It is the only method that writes a field of the runner, so it is
  the only one that returns the runner.
\<close>

definition startQuery :: "AthenaQuery \<Rightarrow> world \<Rightarrow> (error + unit) \<times> AthenaQuery \<times> world" where
  "startQuery this w =
     (case sendStartQueryExecution (query this) w of
        (Inl e, w1) \<Rightarrow> (Inl e, this, w1)
      | (Inr startResponse, w1) \<Rightarrow>
          (let this1 = this\<lparr>QueryExecutionId :=
                               StartQueryExecutionCommandOutput.QueryExecutionId startResponse\<rparr>
           in if AthenaQuery.QueryExecutionId this1 = None
              then (Inl (ExpectedQueryExecutionIdAfterStart startResponse), this1, w1)
              else (Inr (), this1, w1)))"

text \<open>
  The \<^verbatim>\<open>while (!isTerminalState(getState(stateResponse)))\<close> loop of
  \<^verbatim>\<open>waitForSuccessfulResult\<close>, entered with the response of the first fetch. Each round
  takes one output from the client's queue or ends with the client's rejection, so the
  queue's length is the measure.
\<close>

function whileNotTerminal ::
  "AthenaQuery \<Rightarrow> GetQueryExecutionCommandOutput \<Rightarrow> world
     \<Rightarrow> (error + GetQueryExecutionCommandOutput) \<times> world" where
  "whileNotTerminal this stateResponse w =
     (if \<not> isTerminalState (getState stateResponse) then
        (case sendGetQueryExecution (AthenaQuery.QueryExecutionId this)
                (if sleepMs this > 0 then sleep (sleepMs this) w else w) of
           (Inl e, w1) \<Rightarrow> (Inl e, w1)
         | (Inr stateResponse1, w1) \<Rightarrow> whileNotTerminal this stateResponse1 w1)
      else (Inr stateResponse, w))"
  by pat_completeness auto
termination
  by (relation "measure (\<lambda>(this, stateResponse, w). length (expectedWaitForSuccessfulResults w))")
     (auto simp: sendGetQueryExecution_def sleep_def Let_def split: list.splits if_splits)

declare whileNotTerminal.simps [simp del]

definition waitForSuccessfulResult :: "AthenaQuery \<Rightarrow> world \<Rightarrow> (error + unit) \<times> world" where
  "waitForSuccessfulResult this w =
     (case sendGetQueryExecution (AthenaQuery.QueryExecutionId this) w of
        (Inl e, w1) \<Rightarrow> (Inl e, w1)
      | (Inr stateResponse, w1) \<Rightarrow>
          (case whileNotTerminal this stateResponse w1 of
             (Inl e, w2) \<Rightarrow> (Inl e, w2)
           | (Inr stateResponse1, w2) \<Rightarrow>
               (let responseState = getState stateResponse1
                in if responseState \<noteq> Some ''SUCCEEDED''
                   then (Inl (UnsupportedResponseState responseState), w2)
                   else (Inr (), w2))))"

text \<open>
  \<^verbatim>\<open>getResults\<close>, with its expressions named:
  \<open>responseRows\<close> is \<^verbatim>\<open>response?.ResultSet?.Rows\<close>;
  \<open>headerData\<close> is \<^verbatim>\<open>rows?.[0]?.Data\<close>, the cells of the header row;
  \<open>headerFieldNames\<close> is the \<^verbatim>\<open>map((data, index) => ...)\<close> over these cells
  (\<open>enumerate 0\<close> pairs each cell with its index) with \<^verbatim>\<open>undefined\<close> replaced by \<^verbatim>\<open>[]\<close>;
  \<open>rowsToData\<close> is \<^verbatim>\<open>rows ? fromRowsToJsonValues(rows, fieldNames) : []\<close>;
  \<^verbatim>\<open>rows?.slice(1)\<close> is \<open>map_option (drop 1)\<close>.
\<close>

definition responseRows :: "GetQueryResultsCommandOutput \<Rightarrow> Row list option" where
  "responseRows response = (case ResultSet response of None \<Rightarrow> None | Some rs \<Rightarrow> Rows rs)"

definition headerData :: "Row list option \<Rightarrow> Datum list option" where
  "headerData rows =
     (case rows of
        None \<Rightarrow> None
      | Some [] \<Rightarrow> None
      | Some (row0 # _) \<Rightarrow> Row.Data row0)"

definition headerFieldNames :: "Row list option \<Rightarrow> string list" where
  "headerFieldNames rows =
     (case headerData rows of
        None \<Rightarrow> []
      | Some ds \<Rightarrow>
          map (\<lambda>(index, data).
                 case VarCharValue data of
                   None \<Rightarrow> ''col'' @ numberToString index
                 | Some name \<Rightarrow> name)
              (enumerate 0 ds))"

definition rowsToData :: "Row list option \<Rightarrow> string list \<Rightarrow> error + JsonValue list" where
  "rowsToData rows fieldNames1 =
     (case rows of None \<Rightarrow> Inr [] | Some rs \<Rightarrow> fromRowsToJsonValues rs fieldNames1)"

definition getResults ::
  "string option \<Rightarrow> string option \<Rightarrow> bool \<Rightarrow> string list \<Rightarrow> world
     \<Rightarrow> (error + GetResultOutput) \<times> world" where
  "getResults executionId token isFirstQuery fieldNames0 w =
     (case sendGetQueryResults executionId token w of
        (Inl e, w1) \<Rightarrow> (Inl e, w1)
      | (Inr response, w1) \<Rightarrow>
          if httpStatusCode response \<noteq> Some 200
          then (Inl (GetQueryResultsFailed response), w1)
          else
            (let rows0 = responseRows response;
                 fieldNames1 = (if isFirstQuery then headerFieldNames rows0 else fieldNames0);
                 rows = (if isFirstQuery then map_option (drop 1) rows0 else rows0)
             in case rowsToData rows fieldNames1 of
                  Inl e \<Rightarrow> (Inl e, w1)
                | Inr data \<Rightarrow>
                    (Inr \<lparr>Data = data,
                          NextToken = GetQueryResultsCommandOutput.NextToken response,
                          fieldNames = fieldNames1\<rparr>, w1)))"

text \<open>
  \<^verbatim>\<open>await this.batchProcessor(Data)\<close>: the call is recorded, then the callback's answer
  decides between continuing and rejecting.
\<close>

fun batchesOf :: "event list \<Rightarrow> JsonValue list list" where
  "batchesOf [] = []"
| "batchesOf (Batch rows # es) = rows # batchesOf es"
| "batchesOf (_ # es) = batchesOf es"

definition callBatchProcessor :: "AthenaQuery \<Rightarrow> JsonValue list \<Rightarrow> world \<Rightarrow> (error + unit) \<times> world" where
  "callBatchProcessor this rows w =
     (case batchProcessor this (batchesOf (trace w)) rows of
        Some reason \<Rightarrow> (Inl (BatchProcessorRejected reason), w\<lparr>trace := trace w @ [Batch rows]\<rparr>)
      | None \<Rightarrow> (Inr (), w\<lparr>trace := trace w @ [Batch rows]\<rparr>))"

text \<open>
  The \<^verbatim>\<open>while (NextToken !== undefined)\<close> loop of \<^verbatim>\<open>getResultsInBatches\<close>, with the
  field names of the first page. Each round takes one output from the client's queue or
  ends with a rejection.
\<close>

function whileNextToken ::
  "AthenaQuery \<Rightarrow> string list \<Rightarrow> string option \<Rightarrow> world \<Rightarrow> (error + unit) \<times> world" where
  "whileNextToken this fieldNames0 token w =
     (if token \<noteq> None then
        (case getResults (AthenaQuery.QueryExecutionId this) token False fieldNames0 w of
           (Inl e, w1) \<Rightarrow> (Inl e, w1)
         | (Inr pageResults, w1) \<Rightarrow>
             (case callBatchProcessor this (GetResultOutput.Data pageResults) w1 of
                (Inl e, w2) \<Rightarrow> (Inl e, w2)
              | (Inr u, w2) \<Rightarrow>
                  whileNextToken this fieldNames0 (GetResultOutput.NextToken pageResults) w2))
      else (Inr (), w))"
  by pat_completeness auto
termination
  by (relation "measure (\<lambda>(this, fieldNames0, token, w). length (expectedGetResults w))")
     (auto simp: getResults_def sendGetQueryResults_def callBatchProcessor_def Let_def
           split: list.splits if_splits sum.splits option.splits)

declare whileNextToken.simps [simp del]

definition getResultsInBatches :: "AthenaQuery \<Rightarrow> world \<Rightarrow> (error + unit) \<times> world" where
  "getResultsInBatches this w =
     (case getResults (AthenaQuery.QueryExecutionId this) None True [] w of
        (Inl e, w1) \<Rightarrow> (Inl e, w1)
      | (Inr results, w1) \<Rightarrow>
          (case callBatchProcessor this (GetResultOutput.Data results) w1 of
             (Inl e, w2) \<Rightarrow> (Inl e, w2)
           | (Inr u, w2) \<Rightarrow>
               whileNextToken this (fieldNames results) (GetResultOutput.NextToken results) w2))"

definition processQuery :: "AthenaQuery \<Rightarrow> world \<Rightarrow> (error + unit) \<times> AthenaQuery \<times> world" where
  "processQuery this w =
     (if AthenaQuery.QueryExecutionId this \<noteq> None then (Inl CanOnlyBeUsedOnce, this, w)
      else
        (case startQuery this w of
           (Inl e, this1, w1) \<Rightarrow> (Inl e, this1, w1)
         | (Inr u, this1, w1) \<Rightarrow>
             if AthenaQuery.QueryExecutionId this1 = None
             then (Inl ExpectedQueryExecutionId, this1, w1)
             else
               (case waitForSuccessfulResult this1 w1 of
                  (Inl e, w2) \<Rightarrow> (Inl e, this1, w2)
                | (Inr u, w2) \<Rightarrow>
                    (case getResultsInBatches this1 w2 of (r, w3) \<Rightarrow> (r, this1, w3)))))"

text \<open>
  \<open>processQuery\<close> above is one call run from its first statement to its last with no
  other call's code in between. In JavaScript a call is suspended at every \<^verbatim>\<open>await\<close>, and
  another call on the same runner can run meanwhile. The guard reads
  \<^verbatim>\<open>this.QueryExecutionId\<close> before the first \<^verbatim>\<open>await\<close> and \<^verbatim>\<open>startQuery\<close> writes it after, so
  the beginning of a call is also given in the three pieces that the first two awaits
  separate:
  \<^item> \<open>processQueryCall\<close>, the synchronous part of a call: the guard, then \<^verbatim>\<open>startQuery\<close> up
    to its \<^verbatim>\<open>await\<close>, which has passed the command to the client. The scripted client
    answers at once; its answer (an output or a rejection) reaches the call when it is
    resumed;
  \<^item> \<open>startQueryResume\<close>, the rest of \<^verbatim>\<open>startQuery\<close> with the client's answer: it stores the
    id of the response and tests it;
  \<^item> \<open>processQueryResume\<close>, the rest of \<^verbatim>\<open>processQuery\<close> after \<^verbatim>\<open>await this.startQuery()\<close>:
    the second test of the id, polling and retrieval (these run on without a further
    split).
\<close>

definition processQueryCall ::
  "AthenaQuery \<Rightarrow> world \<Rightarrow> (error + (error + StartQueryExecutionCommandOutput)) \<times> world" where
  "processQueryCall this w =
     (if AthenaQuery.QueryExecutionId this \<noteq> None then (Inl CanOnlyBeUsedOnce, w)
      else (case sendStartQueryExecution (query this) w of
              (answer, w1) \<Rightarrow> (Inr answer, w1)))"

definition startQueryResume ::
  "AthenaQuery \<Rightarrow> error + StartQueryExecutionCommandOutput \<Rightarrow> (error + unit) \<times> AthenaQuery" where
  "startQueryResume this answer =
     (case answer of
        Inl e \<Rightarrow> (Inl e, this)
      | Inr startResponse \<Rightarrow>
          (let this1 = this\<lparr>QueryExecutionId :=
                               StartQueryExecutionCommandOutput.QueryExecutionId startResponse\<rparr>
           in if AthenaQuery.QueryExecutionId this1 = None
              then (Inl (ExpectedQueryExecutionIdAfterStart startResponse), this1)
              else (Inr (), this1)))"

definition processQueryResume ::
  "AthenaQuery \<Rightarrow> error + unit \<Rightarrow> world \<Rightarrow> (error + unit) \<times> AthenaQuery \<times> world" where
  "processQueryResume this started w =
     (case started of
        Inl e \<Rightarrow> (Inl e, this, w)
      | Inr u \<Rightarrow>
          if AthenaQuery.QueryExecutionId this = None
          then (Inl ExpectedQueryExecutionId, this, w)
          else
            (case waitForSuccessfulResult this w of
               (Inl e, w2) \<Rightarrow> (Inl e, this, w2)
             | (Inr u, w2) \<Rightarrow>
                 (case getResultsInBatches this w2 of (r, w3) \<Rightarrow> (r, this, w3))))"

section \<open>Row conversion\<close>

subsection \<open>When conversion throws\<close>

lemma forEachData_Inl:
  "forEachData fns k ds acc = Inl e \<Longrightarrow> e = HeaderRowNotLongEnough"
  by (induction ds arbitrary: k acc) (auto split: if_splits)

lemma forEachData_Inl_iff:
  "(forEachData fns k ds acc = Inl HeaderRowNotLongEnough) \<longleftrightarrow>
   (\<exists>i<length ds. \<not> (k + i < length fns \<and> fns ! (k + i) \<noteq> []))"
proof (induction ds arbitrary: k acc)
  case Nil
  then show ?case by simp
next
  case (Cons d ds)
  show ?case
  proof (cases "k < length fns \<and> fns ! k \<noteq> []")
    case True
    then have "(forEachData fns k (d # ds) acc = Inl HeaderRowNotLongEnough) \<longleftrightarrow>
      (\<exists>i<length ds. \<not> (Suc k + i < length fns \<and> fns ! (Suc k + i) \<noteq> []))"
      using Cons.IH [of "Suc k"] by simp
    also have "\<dots> \<longleftrightarrow> (\<exists>i<length (d # ds). \<not> (k + i < length fns \<and> fns ! (k + i) \<noteq> []))"
      using True by (auto simp: less_Suc_eq_0_disj)
    finally show ?thesis .
  next
    case False
    then have "forEachData fns k (d # ds) acc = Inl HeaderRowNotLongEnough"
      by auto
    moreover have "\<exists>i<length (d # ds). \<not> (k + i < length fns \<and> fns ! (k + i) \<noteq> [])"
      using False by (intro exI [of _ 0]) simp
    ultimately show ?thesis by simp
  qed
qed

lemma rowToJsonValue_Inl:
  "rowToJsonValue fns row = Inl e \<Longrightarrow> e = HeaderRowNotLongEnough"
  by (auto simp: rowToJsonValue_def split: option.splits dest: forEachData_Inl)

lemma rowToJsonValue_Inl_iff:
  "(rowToJsonValue fns row = Inl HeaderRowNotLongEnough) \<longleftrightarrow>
   (\<exists>ds. Row.Data row = Some ds \<and> (\<exists>i<length ds. length fns \<le> i \<or> fns ! i = []))"
  using forEachData_Inl_iff [of fns 0 _ "[]"]
  by (auto simp: rowToJsonValue_def not_less split: option.splits)

lemma fromRowsToJsonValues_Inl:
  "fromRowsToJsonValues rows fns = Inl e \<Longrightarrow> e = HeaderRowNotLongEnough"
  by (induction rows arbitrary: e) (auto split: sum.splits dest: rowToJsonValue_Inl)

lemma fromRowsToJsonValues_Inl_iff:
  "(fromRowsToJsonValues rows fns = Inl HeaderRowNotLongEnough) \<longleftrightarrow>
   (\<exists>row\<in>set rows. \<exists>ds. Row.Data row = Some ds \<and> (\<exists>i<length ds. length fns \<le> i \<or> fns ! i = []))"
proof (induction rows)
  case Nil
  then show ?case by simp
next
  case (Cons row rows)
  show ?case
  proof (cases "rowToJsonValue fns row")
    case (Inl e)
    then show ?thesis
      using rowToJsonValue_Inl [OF Inl] rowToJsonValue_Inl_iff [of fns row] by auto
  next
    case (Inr r)
    then have "\<not> (\<exists>ds. Row.Data row = Some ds \<and> (\<exists>i<length ds. length fns \<le> i \<or> fns ! i = []))"
      using rowToJsonValue_Inl_iff [of fns row] by auto
    then show ?thesis
      using Inr Cons.IH fromRowsToJsonValues_Inl [of rows fns]
      by (auto split: sum.splits)
  qed
qed

lemma fromRowsToJsonValues_length:
  "fromRowsToJsonValues rows fns = Inr results \<Longrightarrow> length results = length rows"
  by (induction rows arbitrary: results) (auto split: sum.splits)

text \<open>
  C3. The claim is that \<^verbatim>\<open>fromRowsToJsonValues\<close> throws \<^verbatim>\<open>Header row is not long enough.\<close> if
  and only if some row has more values than there are field names. The code breaks it
  where a field name is the empty string. The header path keeps such a name: it tests
  the cell's text with \<^verbatim>\<open>=== undefined\<close>, so a first page whose header cell has the text
  \<^verbatim>\<open>''\<close> yields the one field name \<^verbatim>\<open>''\<close>. The conversion tests \<^verbatim>\<open>!fieldName\<close>, which
  also holds for the empty string: a data row of one value against this header of one
  name throws, with the message that the header is not long enough, although no row is
  longer than the header. The evaluation below is of the conversion alone and of
  \<^verbatim>\<open>getResults\<close> on such a first page.
\<close>

theorem fromRowsToJsonValues_empty_field_name:
  "headerFieldNames (Some [\<lparr>Row.Data = Some [\<lparr>VarCharValue = Some ''''\<rparr>]\<rparr>]) = ['''']
   \<and> fromRowsToJsonValues [\<lparr>Row.Data = Some [\<lparr>VarCharValue = Some ''x''\<rparr>]\<rparr>] ['''']
       = Inl HeaderRowNotLongEnough
   \<and> \<not> length [''''] < length [\<lparr>VarCharValue = Some ''x''\<rparr>]
   \<and> fst (getResults (Some ''abc-xyz'') None True []
         \<lparr>expectedStartQueries = [], expectedWaitForSuccessfulResults = [],
          expectedGetResults =
            [\<lparr>httpStatusCode = Some 200,
              ResultSet = Some \<lparr>Rows = Some
                [\<lparr>Row.Data = Some [\<lparr>VarCharValue = Some ''''\<rparr>]\<rparr>,
                 \<lparr>Row.Data = Some [\<lparr>VarCharValue = Some ''x''\<rparr>]\<rparr>]\<rparr>,
              GetQueryResultsCommandOutput.NextToken = None\<rparr>],
          trace = []\<rparr>)
       = Inl HeaderRowNotLongEnough"
  by (simp add: headerFieldNames_def headerData_def rowToJsonValue_def enumerate_eq_zip
        getResults_def sendGetQueryResults_def responseRows_def rowsToData_def)

subsection \<open>The record of a row\<close>

lemma forEachData_updates:
  "(\<forall>i<length ds. k + i < length fns \<and> fns ! (k + i) \<noteq> [] \<and> fns ! (k + i) \<noteq> ''__proto__'') \<Longrightarrow>
   forEachData fns k ds acc =
     Inr (AList.updates (take (length ds) (drop k fns)) (map VarCharValue ds) acc)"
proof (induction ds arbitrary: k acc)
  case Nil
  then show ?case by simp
next
  case (Cons d ds)
  from Cons.prems have k: "k < length fns" "fns ! k \<noteq> []" "fns ! k \<noteq> ''__proto__''"
    by force+
  from Cons.prems have rest:
    "\<forall>i<length ds. Suc k + i < length fns \<and> fns ! (Suc k + i) \<noteq> [] \<and> fns ! (Suc k + i) \<noteq> ''__proto__''"
    by force
  have dr: "drop k fns = fns ! k # drop (Suc k) fns"
    using k(1) by (simp add: Cons_nth_drop_Suc)
  show ?case
    using k Cons.IH [OF rest] by (simp add: dr setProperty_def)
qed

lemma update_fresh:
  "k \<notin> fst ` set al \<Longrightarrow> AList.update k v al = al @ [(k, v)]"
  by (induction al) auto

lemma updates_fresh:
  "distinct ks \<Longrightarrow> set ks \<inter> fst ` set al = {} \<Longrightarrow> length ks = length vs \<Longrightarrow>
   AList.updates ks vs al = al @ zip ks vs"
proof (induction ks arbitrary: vs al)
  case Nil
  then show ?case by simp
next
  case (Cons k ks)
  then obtain v vs' where vs: "vs = v # vs'" by (cases vs) auto
  have "AList.updates (k # ks) vs al = AList.updates ks vs' (al @ [(k, v)])"
    using Cons.prems by (simp add: vs update_fresh)
  also have "\<dots> = (al @ [(k, v)]) @ zip ks vs'"
    using Cons.prems by (intro Cons.IH) (auto simp: vs)
  finally show ?case by (simp add: vs)
qed

lemma zip_take_values: "zip (take (length vs) ks) vs = zip ks vs"
proof (induction ks arbitrary: vs)
  case Nil
  then show ?case by simp
next
  case (Cons k ks)
  then show ?case by (cases vs) simp_all
qed

lemma map_upds_last:
  "length ks = length vs \<Longrightarrow> i < length ks \<Longrightarrow>
   (\<forall>j. i < j \<and> j < length ks \<longrightarrow> ks ! j \<noteq> ks ! i) \<Longrightarrow>
   (m(ks [\<mapsto>] vs)) (ks ! i) = Some (vs ! i)"
proof (induction ks arbitrary: vs i m)
  case Nil
  then show ?case by simp
next
  case (Cons k ks)
  then obtain v vs' where vs: "vs = v # vs'" by (cases vs) auto
  show ?case
  proof (cases i)
    case 0
    have "k \<notin> set ks"
    proof
      assume "k \<in> set ks"
      then obtain j where "j < length ks" "ks ! j = k" by (auto simp: in_set_conv_nth)
      with Cons.prems(3) [rule_format, of "Suc j"] 0 show False by simp
    qed
    then show ?thesis using 0 by (simp add: vs)
  next
    case (Suc i')
    have "\<forall>j. i' < j \<and> j < length ks \<longrightarrow> ks ! j \<noteq> ks ! i'"
      using Cons.prems(3) Suc by (metis Suc_less_eq length_Cons nth_Cons_Suc)
    moreover have "length ks = length vs'" "i' < length ks"
      using Cons.prems Suc by (simp_all add: vs)
    ultimately have "((m(k \<mapsto> v))(ks [\<mapsto>] vs')) (ks ! i') = Some (vs' ! i')"
      by (intro Cons.IH) simp_all
    then show ?thesis using Suc by (simp add: vs del: fun_upd_apply)
  qed
qed

text \<open>
  C9 (amended). A data row with strictly fewer values than there are field names, whose
  occupied indices all carry a non-empty field name other than \<^verbatim>\<open>__proto__\<close>, converts
  without error. The record's keys are exactly the field names at the indices the row
  occupies, each key once: nothing is added for the trailing field names. A field name
  holds the row's value (possibly absent) at the last occupied index that carries this
  name; so when the occupied field names are pairwise distinct, the record has exactly
  one entry per value of the row, field name \<open>i\<close> paired with value \<open>i\<close>, in row order.
\<close>

theorem rowToJsonValue_short_row:
  assumes "Row.Data row = Some ds"
    and "length ds < length fns"
    and "\<forall>i<length ds. fns ! i \<noteq> [] \<and> fns ! i \<noteq> ''__proto__''"
  shows "\<exists>result. rowToJsonValue fns row = Inr result
           \<and> dom (map_of result) = set (take (length ds) fns)
           \<and> distinct (map fst result)
           \<and> (\<forall>i<length ds. (\<forall>j. i < j \<and> j < length ds \<longrightarrow> fns ! j \<noteq> fns ! i) \<longrightarrow>
                  map_of result (fns ! i) = Some (VarCharValue (ds ! i)))
           \<and> (distinct (take (length ds) fns) \<longrightarrow>
                  result = zip fns (map VarCharValue ds))"
proof -
  let ?ks = "take (length ds) fns"
  let ?vs = "map VarCharValue ds"
  let ?r = "AList.updates ?ks ?vs []"
  have len: "length ?ks = length ?vs"
    using assms(2) by simp
  have "\<forall>i<length ds. 0 + i < length fns \<and> fns ! (0 + i) \<noteq> [] \<and> fns ! (0 + i) \<noteq> ''__proto__''"
    using assms(2,3) by simp
  from forEachData_updates [OF this, of "[]"]
  have run: "rowToJsonValue fns row = Inr ?r"
    using assms(1) by (simp add: rowToJsonValue_def)
  have keys: "dom (map_of ?r) = set ?ks"
    using len by (simp add: updates_conv')
  have once: "distinct (map fst ?r)"
    by (rule distinct_updates) simp
  have last: "map_of ?r (fns ! i) = Some (VarCharValue (ds ! i))"
    if "i < length ds" and "\<forall>j. i < j \<and> j < length ds \<longrightarrow> fns ! j \<noteq> fns ! i" for i
  proof -
    have a: "i < length ?ks" using that(1) assms(2) by simp
    have b: "\<forall>j. i < j \<and> j < length ?ks \<longrightarrow> ?ks ! j \<noteq> ?ks ! i"
      using that assms(2) by simp
    have "(Map.empty(?ks [\<mapsto>] ?vs)) (?ks ! i) = Some (?vs ! i)"
      by (rule map_upds_last [OF len a b])
    moreover have "?ks ! i = fns ! i" "?vs ! i = VarCharValue (ds ! i)"
      using that(1) by simp_all
    moreover have "map_of ?r = Map.empty(?ks [\<mapsto>] ?vs)"
      by (simp add: updates_conv')
    ultimately show ?thesis by simp
  qed
  have pairs: "?r = zip fns ?vs" if "distinct ?ks"
  proof -
    have "?r = [] @ zip ?ks ?vs"
      using that len by (intro updates_fresh) simp_all
    also have "\<dots> = zip fns ?vs"
      using zip_take_values [of ?vs fns] by simp
    finally show ?thesis .
  qed
  from run keys once last pairs show ?thesis by blast
qed

text \<open>
  An instance: the row \<^verbatim>\<open>John\<close>, absent against the field names \<^verbatim>\<open>first_name\<close>,
  \<^verbatim>\<open>last_name\<close>, \<^verbatim>\<open>age\<close> gives the record of two entries, the second holding
  \<^verbatim>\<open>undefined\<close>, and no entry for \<^verbatim>\<open>age\<close>.
\<close>

theorem rowToJsonValue_short_row_witness:
  "rowToJsonValue [''first_name'', ''last_name'', ''age'']
     \<lparr>Row.Data = Some [\<lparr>VarCharValue = Some ''John''\<rparr>, \<lparr>VarCharValue = None\<rparr>]\<rparr>
   = Inr [(''first_name'', Some ''John''), (''last_name'', None)]"
proof -
  let ?ds = "[\<lparr>VarCharValue = Some ''John''\<rparr>, \<lparr>VarCharValue = None\<rparr>]"
  let ?fns = "[''first_name'', ''last_name'', ''age'']"
  have 1: "Row.Data \<lparr>Row.Data = Some ?ds\<rparr> = Some ?ds"
    by simp
  have 2: "length ?ds < length ?fns"
    by simp
  have 3: "\<forall>i<length ?ds. ?fns ! i \<noteq> [] \<and> ?fns ! i \<noteq> ''__proto__''"
    by (simp add: less_Suc_eq_0_disj)
  have 4: "distinct (take (length ?ds) ?fns)"
    by simp
  from rowToJsonValue_short_row [OF 1 2 3] 4
  obtain result where "rowToJsonValue ?fns \<lparr>Row.Data = Some ?ds\<rparr> = Inr result"
    and "result = zip ?fns (map VarCharValue ?ds)"
    by blast
  then show ?thesis by simp
qed

text \<open>
  C9 as first stated (exactly one entry per value of the row) fails where a field name
  repeats among the occupied indices: the header \<^verbatim>\<open>a\<close>, \<^verbatim>\<open>a\<close>, \<^verbatim>\<open>b\<close> and the row
  \<^verbatim>\<open>1\<close>, \<^verbatim>\<open>2\<close> give a record of one entry, which holds the second value. It also
  fails for the field name \<^verbatim>\<open>__proto__\<close>, for which the assignment creates no entry.
\<close>

theorem rowToJsonValue_repeated_name_counterexample:
  "rowToJsonValue [''a'', ''a'', ''b'']
     \<lparr>Row.Data = Some [\<lparr>VarCharValue = Some ''1''\<rparr>, \<lparr>VarCharValue = Some ''2''\<rparr>]\<rparr>
   = Inr [(''a'', Some ''2'')]
   \<and> rowToJsonValue [''__proto__'', ''b'']
     \<lparr>Row.Data = Some [\<lparr>VarCharValue = Some ''1''\<rparr>]\<rparr>
   = Inr []"
  by (simp add: rowToJsonValue_def setProperty_def)

section \<open>One page: fetch, convert, deliver\<close>

lemma batchesOf_append: "batchesOf (es @ es') = batchesOf es @ batchesOf es'"
  by (induction es rule: batchesOf.induct) simp_all

lemma batchesOf_Sent: "batchesOf (es @ [Sent c]) = batchesOf es"
  by (simp add: batchesOf_append)

lemma getResults_exhausted:
  "expectedGetResults w = [] \<Longrightarrow>
   getResults eid tok isFirstQuery fns0 w =
     (Inl (ExpectedMore ''expectedGetResults''),
      w\<lparr>trace := trace w @ [Sent (GetQueryResultsCommand eid tok)]\<rparr>)"
  by (simp add: getResults_def sendGetQueryResults_def)

lemma getResults_failed:
  "expectedGetResults w = response # rest \<Longrightarrow> httpStatusCode response \<noteq> Some 200 \<Longrightarrow>
   getResults eid tok isFirstQuery fns0 w =
     (Inl (GetQueryResultsFailed response),
      w\<lparr>expectedGetResults := rest,
        trace := trace w @ [Sent (GetQueryResultsCommand eid tok)]\<rparr>)"
  by (simp add: getResults_def sendGetQueryResults_def)

lemma getResults_fetched:
  "expectedGetResults w = response # rest \<Longrightarrow> httpStatusCode response = Some 200 \<Longrightarrow>
   getResults eid tok isFirstQuery fns0 w =
     (case rowsToData
             (if isFirstQuery then map_option (drop 1) (responseRows response)
              else responseRows response)
             (if isFirstQuery then headerFieldNames (responseRows response) else fns0) of
        Inl e \<Rightarrow>
          (Inl e, w\<lparr>expectedGetResults := rest,
                    trace := trace w @ [Sent (GetQueryResultsCommand eid tok)]\<rparr>)
      | Inr data \<Rightarrow>
          (Inr \<lparr>Data = data,
                NextToken = GetQueryResultsCommandOutput.NextToken response,
                fieldNames =
                  (if isFirstQuery then headerFieldNames (responseRows response) else fns0)\<rparr>,
           w\<lparr>expectedGetResults := rest,
             trace := trace w @ [Sent (GetQueryResultsCommand eid tok)]\<rparr>))"
  by (simp add: getResults_def sendGetQueryResults_def Let_def split: sum.splits)

lemma rowsToData_Inl: "rowsToData rows fns = Inl e \<Longrightarrow> e = HeaderRowNotLongEnough"
  by (auto simp: rowsToData_def split: option.splits dest: fromRowsToJsonValues_Inl)

lemma callBatchProcessor_resolves:
  "batchProcessor this (batchesOf (trace w)) rows = None \<Longrightarrow>
   callBatchProcessor this rows w = (Inr (), w\<lparr>trace := trace w @ [Batch rows]\<rparr>)"
  by (simp add: callBatchProcessor_def)

lemma callBatchProcessor_rejects:
  "batchProcessor this (batchesOf (trace w)) rows = Some reason \<Longrightarrow>
   callBatchProcessor this rows w =
     (Inl (BatchProcessorRejected reason), w\<lparr>trace := trace w @ [Batch rows]\<rparr>)"
  by (simp add: callBatchProcessor_def)

text \<open>
  One round of the loop on a page that is fetched with status 200, converts, and is
  accepted by the batch processor.
\<close>

lemma whileNextToken_round:
  assumes "expectedGetResults w = p # rest"
    and "httpStatusCode p = Some 200"
    and "rowsToData (responseRows p) fns = Inr b"
    and "batchProcessor this (batchesOf (trace w)) b = None"
  shows "whileNextToken this fns (Some t) w =
           whileNextToken this fns (GetQueryResultsCommandOutput.NextToken p)
             (w\<lparr>expectedGetResults := rest,
                trace := trace w @
                  [Sent (GetQueryResultsCommand (AthenaQuery.QueryExecutionId this) (Some t)),
                   Batch b]\<rparr>)"
proof -
  let ?w1 = "w\<lparr>expectedGetResults := rest,
               trace := trace w @
                 [Sent (GetQueryResultsCommand (AthenaQuery.QueryExecutionId this) (Some t))]\<rparr>"
  have fetch: "getResults (AthenaQuery.QueryExecutionId this) (Some t) False fns w =
      (Inr \<lparr>Data = b, NextToken = GetQueryResultsCommandOutput.NextToken p, fieldNames = fns\<rparr>, ?w1)"
    using getResults_fetched [OF assms(1,2), of _ _ False fns] assms(3) by simp
  have "batchProcessor this (batchesOf (trace ?w1)) b = None"
    using assms(4) by (simp add: batchesOf_Sent)
  from callBatchProcessor_resolves [OF this]
  have deliver: "callBatchProcessor this b ?w1 = (Inr (), ?w1\<lparr>trace := trace ?w1 @ [Batch b]\<rparr>)" .
  show ?thesis
    by (subst whileNextToken.simps) (simp add: fetch deliver)
qed

text \<open>
  Rounds of the loop over the pages \<open>ps\<close>, entered with the token \<open>t\<close>, as long as each
  page is fetched with status 200, converts, is accepted, and the token for each fetch is
  there. The events are, page by page, the fetch with the token of the page before
  (\<open>t\<close> for the first) and the delivery of the page's batch; \<open>zip\<close> drops the token of
  the last page, which is the one the loop test sees next.
\<close>

lemma whileNextToken_pages:
  assumes "list_all2 (\<lambda>p b. httpStatusCode p = Some 200 \<and> rowsToData (responseRows p) fns = Inr b) ps bs"
    and "\<forall>tok\<in>set (butlast (t # map GetQueryResultsCommandOutput.NextToken ps)). tok \<noteq> None"
    and "\<forall>i<length bs. batchProcessor this (batchesOf (trace w) @ take i bs) (bs ! i) = None"
    and "expectedGetResults w = ps @ rest"
  shows "whileNextToken this fns t w =
           whileNextToken this fns (last (t # map GetQueryResultsCommandOutput.NextToken ps))
             (w\<lparr>expectedGetResults := rest,
                trace := trace w @
                  concat (map (\<lambda>(tok, b).
                      [Sent (GetQueryResultsCommand (AthenaQuery.QueryExecutionId this) tok), Batch b])
                    (zip (t # map GetQueryResultsCommandOutput.NextToken ps) bs))\<rparr>)"
  using assms
proof (induction ps arbitrary: t w bs)
  case Nil
  then have "bs = []" and "w\<lparr>expectedGetResults := rest\<rparr> = w"
    by (cases w; simp)+
  then show ?case by simp
next
  case (Cons p ps)
  from Cons.prems(1) obtain b bs' where bs: "bs = b # bs'"
    and p: "httpStatusCode p = Some 200" "rowsToData (responseRows p) fns = Inr b"
    and rest: "list_all2 (\<lambda>p b. httpStatusCode p = Some 200 \<and> rowsToData (responseRows p) fns = Inr b) ps bs'"
    by (auto simp: list_all2_Cons1)
  from Cons.prems(2) obtain tk where t: "t = Some tk"
    by (cases t) auto
  let ?t' = "GetQueryResultsCommandOutput.NextToken p"
  let ?w' = "w\<lparr>expectedGetResults := ps @ rest,
               trace := trace w @
                 [Sent (GetQueryResultsCommand (AthenaQuery.QueryExecutionId this) (Some tk)),
                  Batch b]\<rparr>"
  have q: "expectedGetResults w = p # (ps @ rest)"
    using Cons.prems(4) by simp
  have acc: "batchProcessor this (batchesOf (trace w)) b = None"
    using Cons.prems(3) [rule_format, of 0] by (simp add: bs)
  have round: "whileNextToken this fns t w = whileNextToken this fns ?t' ?w'"
    unfolding t by (rule whileNextToken_round [OF q p acc])
  have toks: "\<forall>tok\<in>set (butlast (?t' # map GetQueryResultsCommandOutput.NextToken ps)). tok \<noteq> None"
    using Cons.prems(2) by (auto split: if_splits)
  have cons: "\<forall>i<length bs'. batchProcessor this (batchesOf (trace ?w') @ take i bs') (bs' ! i) = None"
  proof (intro allI impI)
    fix i assume "i < length bs'"
    then have "batchProcessor this (batchesOf (trace w) @ take (Suc i) bs) (bs ! Suc i) = None"
      using Cons.prems(3) [rule_format, of "Suc i"] by (simp add: bs)
    then show "batchProcessor this (batchesOf (trace ?w') @ take i bs') (bs' ! i) = None"
      by (simp add: bs batchesOf_append)
  qed
  have q': "expectedGetResults ?w' = ps @ rest"
    by simp
  show ?case
    unfolding round
    by (subst Cons.IH [OF rest toks cons q']) (simp add: bs t)
qed

subsection \<open>The header row of the first page\<close>

text \<open>
  \<open>numberToString\<close> writes a number in decimal: its characters are digits, the first is
  not \<^verbatim>\<open>0\<close> unless the number is 0, and read back in base ten they give the number.
\<close>

lemma digit_char:
  "d < 10 \<Longrightarrow> (of_char (''0123456789'' ! d) :: nat) = 48 + d"
proof -
  have "\<forall>d\<in>set [0..<10]. (of_char (''0123456789'' ! d) :: nat) = 48 + d"
    by (simp add: upt_rec)
  then show "d < 10 \<Longrightarrow> (of_char (''0123456789'' ! d) :: nat) = 48 + d"
    by simp
qed

lemma digit_char_zero:
  "d < 10 \<Longrightarrow> ''0123456789'' ! d = CHR ''0'' \<Longrightarrow> d = 0"
  using digit_char [of d] by (cases "d = 0") auto

lemma numberToString_value:
  "foldl (\<lambda>a c. 10 * a + ((of_char c :: nat) - 48)) 0 (numberToString n) = n"
proof (induction n rule: numberToString.induct)
  case (1 n)
  show ?case
  proof (cases "n < 10")
    case True
    then show ?thesis
      by (subst numberToString.simps) (simp add: digit_char)
  next
    case False
    have "n mod 10 < 10"
      by simp
    then have "(of_char (''0123456789'' ! (n mod 10)) :: nat) - 48 = n mod 10"
      by (simp add: digit_char)
    then show ?thesis
      using False "1.IH" by (subst numberToString.simps) simp
  qed
qed

lemma numberToString_digits:
  "set (numberToString n) \<subseteq> set ''0123456789''"
proof (induction n rule: numberToString.induct)
  case (1 n)
  have digit: "''0123456789'' ! d \<in> set ''0123456789''" if "d < 10" for d
    using that by (intro nth_mem) simp
  show ?case
  proof (cases "n < 10")
    case True
    then show ?thesis
      using digit [of n] by (subst numberToString.simps) simp
  next
    case False
    then show ?thesis
      using "1.IH" digit [of "n mod 10"] by (subst numberToString.simps) simp
  qed
qed

lemma numberToString_first:
  "numberToString n \<noteq> [] \<and> (hd (numberToString n) = CHR ''0'' \<longrightarrow> n = 0)"
proof (induction n rule: numberToString.induct)
  case (1 n)
  show ?case
  proof (cases "n < 10")
    case True
    then show ?thesis
      using digit_char_zero [of n] by (subst (1 2) numberToString.simps) auto
  next
    case False
    then have "n div 10 \<noteq> 0"
      by simp
    then show ?thesis
      using False "1.IH" by (subst (1 2) numberToString.simps) auto
  qed
qed

lemma headerFieldNames_cells:
  "headerFieldNames rows0 =
     map (\<lambda>i. case VarCharValue ((case headerData rows0 of None \<Rightarrow> [] | Some ds \<Rightarrow> ds) ! i) of
                 None \<Rightarrow> ''col'' @ numberToString i
               | Some name \<Rightarrow> name)
         [0..<length (case headerData rows0 of None \<Rightarrow> [] | Some ds \<Rightarrow> ds)]"
proof (cases "headerData rows0")
  case None
  then show ?thesis by (simp add: headerFieldNames_def)
next
  case (Some ds)
  have "map (\<lambda>(index, data). case VarCharValue data of
                 None \<Rightarrow> ''col'' @ numberToString index | Some name \<Rightarrow> name)
            (enumerate 0 ds)
        = map (\<lambda>i. case VarCharValue (ds ! i) of
                 None \<Rightarrow> ''col'' @ numberToString i | Some name \<Rightarrow> name)
            [0..<length ds]"
    by (rule nth_equalityI) (simp_all add: nth_enumerate_eq split: option.splits)
  then show ?thesis using Some by (simp add: headerFieldNames_def)
qed

lemma rowsToData_rows:
  "rowsToData rows0 fns =
     fromRowsToJsonValues (case rows0 of None \<Rightarrow> [] | Some rs \<Rightarrow> rs) fns"
  by (simp add: rowsToData_def split: option.splits)

lemma rowsToData_drop:
  "rowsToData (map_option (drop 1) rows0) fns =
     fromRowsToJsonValues (drop 1 (case rows0 of None \<Rightarrow> [] | Some rs \<Rightarrow> rs)) fns"
  by (simp add: rowsToData_def split: option.splits)

text \<open>
  What the code's readers return, in terms of the response itself: the rows are the
  members of \<^verbatim>\<open>ResultSet.Rows\<close> (none when either is absent), and the header cells are the
  \<^verbatim>\<open>Data\<close> of the first of these rows (none when there is no row or its \<^verbatim>\<open>Data\<close> is absent).
\<close>

lemma responseRows_raw:
  "(case responseRows response of None \<Rightarrow> [] | Some rs \<Rightarrow> rs) =
     (case ResultSet response of
        None \<Rightarrow> []
      | Some rs \<Rightarrow> (case Rows rs of None \<Rightarrow> [] | Some rws \<Rightarrow> rws))"
  by (simp add: responseRows_def split: option.splits)

lemma headerData_raw:
  "(case headerData (responseRows response) of None \<Rightarrow> [] | Some ds \<Rightarrow> ds) =
     (case (case ResultSet response of
              None \<Rightarrow> []
            | Some rs \<Rightarrow> (case Rows rs of None \<Rightarrow> [] | Some rws \<Rightarrow> rws)) of
        [] \<Rightarrow> []
      | row0 # dataRows \<Rightarrow> (case Row.Data row0 of None \<Rightarrow> [] | Some ds \<Rightarrow> ds))"
  by (simp add: responseRows_def headerData_def split: option.splits list.splits)

text \<open>
  C4. Let a page be fetched with status 200; let \<open>rows\<close> be the rows of its result set
  (none when the result set or its row list is absent) and \<open>cells\<close> the cells of the first
  of these rows, row 0 (none when there is no row or row 0 has no data). Fetched as the
  first page, the field names returned are one name per cell of row 0, in cell order:
  the cell's text, or, when the text is absent, \<^verbatim>\<open>col\<close> followed by the decimal digits of
  the cell's 0-based index; and the records are the conversion, under these names, of the
  rows without row 0. Fetched as a later page, the field names are the ones passed in and
  every row, row 0 included, is converted.
\<close>

theorem getResults_header_row:
  assumes "expectedGetResults w = response # rest"
    and "httpStatusCode response = Some 200"
    and "rows = (case ResultSet response of
                   None \<Rightarrow> []
                 | Some rs \<Rightarrow> (case Rows rs of None \<Rightarrow> [] | Some rws \<Rightarrow> rws))"
    and "cells = (case rows of
                    [] \<Rightarrow> []
                  | row0 # dataRows \<Rightarrow> (case Row.Data row0 of None \<Rightarrow> [] | Some ds \<Rightarrow> ds))"
    and "names = map (\<lambda>i. case VarCharValue (cells ! i) of
                             None \<Rightarrow> ''col'' @ numberToString i
                           | Some name \<Rightarrow> name) [0..<length cells]"
  shows "fst (getResults eid tok True fns0 w) =
           (case fromRowsToJsonValues (drop 1 rows) names of
              Inl e \<Rightarrow> Inl e
            | Inr data \<Rightarrow>
                Inr \<lparr>Data = data,
                     NextToken = GetQueryResultsCommandOutput.NextToken response,
                     fieldNames = names\<rparr>)
         \<and> fst (getResults eid tok False fns0 w) =
           (case fromRowsToJsonValues rows fns0 of
              Inl e \<Rightarrow> Inl e
            | Inr data \<Rightarrow>
                Inr \<lparr>Data = data,
                     NextToken = GetQueryResultsCommandOutput.NextToken response,
                     fieldNames = fns0\<rparr>)
         \<and> length names = length cells
         \<and> (\<forall>i<length cells. \<forall>name. VarCharValue (cells ! i) = Some name \<longrightarrow> names ! i = name)
         \<and> (\<forall>i<length cells. VarCharValue (cells ! i) = None \<longrightarrow>
               (\<exists>digits. names ! i = ''col'' @ digits
                  \<and> digits \<noteq> []
                  \<and> set digits \<subseteq> set ''0123456789''
                  \<and> (hd digits = CHR ''0'' \<longrightarrow> i = 0)
                  \<and> foldl (\<lambda>a c. 10 * a + ((of_char c :: nat) - 48)) 0 digits = i))"
proof -
  have rows: "(case responseRows response of None \<Rightarrow> [] | Some rs \<Rightarrow> rs) = rows"
    unfolding assms(3) by (rule responseRows_raw)
  have cells: "(case headerData (responseRows response) of None \<Rightarrow> [] | Some ds \<Rightarrow> ds) = cells"
    unfolding assms(3,4) by (rule headerData_raw)
  have names: "headerFieldNames (responseRows response) = names"
    unfolding assms(5) cells [symmetric] by (rule headerFieldNames_cells)
  have first: "rowsToData (map_option (drop 1) (responseRows response)) names =
      fromRowsToJsonValues (drop 1 rows) names"
    unfolding rows [symmetric] by (rule rowsToData_drop)
  have later: "rowsToData (responseRows response) fns0 = fromRowsToJsonValues rows fns0"
    unfolding rows [symmetric] by (rule rowsToData_rows)
  have "fst (getResults eid tok True fns0 w) =
      (case rowsToData (map_option (drop 1) (responseRows response))
              (headerFieldNames (responseRows response)) of
         Inl e \<Rightarrow> Inl e
       | Inr data \<Rightarrow>
           Inr \<lparr>Data = data,
                NextToken = GetQueryResultsCommandOutput.NextToken response,
                fieldNames = headerFieldNames (responseRows response)\<rparr>)"
    by (simp add: getResults_fetched [OF assms(1,2)] split: sum.splits)
  then have 1: "fst (getResults eid tok True fns0 w) =
           (case fromRowsToJsonValues (drop 1 rows) names of
              Inl e \<Rightarrow> Inl e
            | Inr data \<Rightarrow>
                Inr \<lparr>Data = data,
                     NextToken = GetQueryResultsCommandOutput.NextToken response,
                     fieldNames = names\<rparr>)"
    by (simp only: names first)
  have "fst (getResults eid tok False fns0 w) =
      (case rowsToData (responseRows response) fns0 of
         Inl e \<Rightarrow> Inl e
       | Inr data \<Rightarrow>
           Inr \<lparr>Data = data,
                NextToken = GetQueryResultsCommandOutput.NextToken response,
                fieldNames = fns0\<rparr>)"
    by (simp add: getResults_fetched [OF assms(1,2)] split: sum.splits)
  then have 2: "fst (getResults eid tok False fns0 w) =
           (case fromRowsToJsonValues rows fns0 of
              Inl e \<Rightarrow> Inl e
            | Inr data \<Rightarrow>
                Inr \<lparr>Data = data,
                     NextToken = GetQueryResultsCommandOutput.NextToken response,
                     fieldNames = fns0\<rparr>)"
    by (simp only: later)
  have 3: "length names = length cells"
    by (simp add: assms(5))
  have 4: "names ! i = name" if "i < length cells" "VarCharValue (cells ! i) = Some name" for i name
    using that by (simp add: assms(5))
  have 5: "\<exists>digits. names ! i = ''col'' @ digits
                  \<and> digits \<noteq> []
                  \<and> set digits \<subseteq> set ''0123456789''
                  \<and> (hd digits = CHR ''0'' \<longrightarrow> i = 0)
                  \<and> foldl (\<lambda>a c. 10 * a + ((of_char c :: nat) - 48)) 0 digits = i"
    if "i < length cells" "VarCharValue (cells ! i) = None" for i
  proof (intro exI [of _ "numberToString i"] conjI)
    show "names ! i = ''col'' @ numberToString i"
      using that by (simp add: assms(5))
    show "numberToString i \<noteq> []" "hd (numberToString i) = CHR ''0'' \<longrightarrow> i = 0"
      using numberToString_first [of i] by simp_all
    show "set (numberToString i) \<subseteq> set ''0123456789''"
      by (rule numberToString_digits)
    show "foldl (\<lambda>a c. 10 * a + ((of_char c :: nat) - 48)) 0 (numberToString i) = i"
      by (rule numberToString_value)
  qed
  from 1 2 3 4 5 show ?thesis by blast
qed

text \<open>
  An instance: a first page of three rows. The header has a cell without text, the cell
  \<^verbatim>\<open>last_name\<close>, and another cell without text; the two data rows follow.
\<close>

theorem getResults_header_row_witness:
  "fst (getResults (Some ''abc-xyz'') None True []
         \<lparr>expectedStartQueries = [], expectedWaitForSuccessfulResults = [],
          expectedGetResults =
            [\<lparr>httpStatusCode = Some 200,
              ResultSet = Some \<lparr>Rows = Some
                [\<lparr>Row.Data = Some [\<lparr>VarCharValue = None\<rparr>, \<lparr>VarCharValue = Some ''last_name''\<rparr>,
                                   \<lparr>VarCharValue = None\<rparr>]\<rparr>,
                 \<lparr>Row.Data = Some [\<lparr>VarCharValue = Some ''John''\<rparr>, \<lparr>VarCharValue = Some ''Smith''\<rparr>,
                                   \<lparr>VarCharValue = Some ''42''\<rparr>]\<rparr>,
                 \<lparr>Row.Data = Some [\<lparr>VarCharValue = Some ''Mary''\<rparr>, \<lparr>VarCharValue = Some ''Jones''\<rparr>,
                                   \<lparr>VarCharValue = None\<rparr>]\<rparr>]\<rparr>,
              GetQueryResultsCommandOutput.NextToken = None\<rparr>],
          trace = []\<rparr>)
   = Inr \<lparr>Data = [[(''col0'', Some ''John''), (''last_name'', Some ''Smith''), (''col2'', Some ''42'')],
                  [(''col0'', Some ''Mary''), (''last_name'', Some ''Jones''), (''col2'', None)]],
          NextToken = None,
          fieldNames = [''col0'', ''last_name'', ''col2'']\<rparr>"
proof -
  let ?header = "[\<lparr>VarCharValue = None\<rparr>, \<lparr>VarCharValue = Some ''last_name''\<rparr>,
                  \<lparr>VarCharValue = None\<rparr>]"
  let ?rows = "[\<lparr>Row.Data = Some ?header\<rparr>,
                \<lparr>Row.Data = Some [\<lparr>VarCharValue = Some ''John''\<rparr>, \<lparr>VarCharValue = Some ''Smith''\<rparr>,
                                  \<lparr>VarCharValue = Some ''42''\<rparr>]\<rparr>,
                \<lparr>Row.Data = Some [\<lparr>VarCharValue = Some ''Mary''\<rparr>, \<lparr>VarCharValue = Some ''Jones''\<rparr>,
                                  \<lparr>VarCharValue = None\<rparr>]\<rparr>]"
  let ?response = "\<lparr>httpStatusCode = Some 200, ResultSet = Some \<lparr>Rows = Some ?rows\<rparr>,
                    GetQueryResultsCommandOutput.NextToken = None\<rparr>"
  let ?w = "\<lparr>expectedStartQueries = [], expectedWaitForSuccessfulResults = [],
             expectedGetResults = [?response], trace = []\<rparr>"
  have 1: "expectedGetResults ?w = ?response # []"
    by simp
  have 2: "httpStatusCode ?response = Some 200"
    by simp
  have 3: "?rows = (case ResultSet ?response of
                      None \<Rightarrow> []
                    | Some rs \<Rightarrow> (case Rows rs of None \<Rightarrow> [] | Some rws \<Rightarrow> rws))"
    by simp
  have 4: "?header = (case ?rows of
                        [] \<Rightarrow> []
                      | row0 # dataRows \<Rightarrow>
                          (case Row.Data row0 of None \<Rightarrow> [] | Some ds \<Rightarrow> ds))"
    by simp
  have 5: "[''col0'', ''last_name'', ''col2''] =
      map (\<lambda>i. case VarCharValue (?header ! i) of
                  None \<Rightarrow> ''col'' @ numberToString i
                | Some name \<Rightarrow> name) [0..<length ?header]"
    by (simp add: upt_rec numberToString.simps)
  from getResults_header_row [OF 1 2 3 4 5, of "Some ''abc-xyz''" None "[]", THEN conjunct1]
  show ?thesis
    by (simp add: rowToJsonValue_def setProperty_def)
qed

subsection \<open>What a page adds to the history\<close>

lemma getResults_trace:
  "getResults eid tok isFirstQuery fns0 w = (r, w1) \<Longrightarrow>
   trace w1 = trace w @ [Sent (GetQueryResultsCommand eid tok)]"
  by (auto simp: getResults_def sendGetQueryResults_def Let_def
           split: list.splits if_splits sum.splits)

lemma callBatchProcessor_trace:
  "callBatchProcessor this rows w = (r, w1) \<Longrightarrow> trace w1 = trace w @ [Batch rows]"
  by (auto simp: callBatchProcessor_def split: option.splits)

lemma whileNextToken_trace:
  "\<exists>es. trace (snd (whileNextToken this fns tok w)) = trace w @ es"
proof (induction this fns tok w rule: whileNextToken.induct)
  case (1 this fns tok w)
  show ?case
  proof (cases "tok = None")
    case True
    then show ?thesis by (simp add: whileNextToken.simps)
  next
    case False
    obtain r w1 where g: "getResults (AthenaQuery.QueryExecutionId this) tok False fns w = (r, w1)"
      by (cases "getResults (AthenaQuery.QueryExecutionId this) tok False fns w")
    note t1 = getResults_trace [OF g]
    show ?thesis
    proof (cases r)
      case (Inl e)
      then show ?thesis
        using False g t1 by (subst whileNextToken.simps) simp
    next
      case (Inr pageResults)
      obtain r2 w2 where c: "callBatchProcessor this (GetResultOutput.Data pageResults) w1 = (r2, w2)"
        by (cases "callBatchProcessor this (GetResultOutput.Data pageResults) w1")
      note t2 = callBatchProcessor_trace [OF c]
      show ?thesis
      proof (cases r2)
        case (Inl e)
        then show ?thesis
          using False g Inr c t1 t2 by (subst whileNextToken.simps) simp
      next
        case (Inr u)
        from "1.IH" [OF False g [symmetric] \<open>r = Inr pageResults\<close> c [symmetric] Inr]
        obtain es where
          "trace (snd (whileNextToken this fns (GetResultOutput.NextToken pageResults) w2)) = trace w2 @ es"
          by blast
        then show ?thesis
          using False g \<open>r = Inr pageResults\<close> c Inr t1 t2 by (subst whileNextToken.simps) simp
      qed
    qed
  qed
qed

text \<open>
  The first page and a later page, when the fetch has status 200 and the rows convert:
  the batch is handed to the batch processor, whose answer decides how the run goes on.
\<close>

lemma getResultsInBatches_first:
  assumes "expectedGetResults w = response # rest"
    and "httpStatusCode response = Some 200"
    and "rowsToData (map_option (drop 1) (responseRows response))
           (headerFieldNames (responseRows response)) = Inr b"
  shows "getResultsInBatches this w =
           (case batchProcessor this (batchesOf (trace w)) b of
              Some reason \<Rightarrow>
                (Inl (BatchProcessorRejected reason),
                 w\<lparr>expectedGetResults := rest,
                   trace := trace w @
                     [Sent (GetQueryResultsCommand (AthenaQuery.QueryExecutionId this) None),
                      Batch b]\<rparr>)
            | None \<Rightarrow>
                whileNextToken this (headerFieldNames (responseRows response))
                  (GetQueryResultsCommandOutput.NextToken response)
                  (w\<lparr>expectedGetResults := rest,
                     trace := trace w @
                       [Sent (GetQueryResultsCommand (AthenaQuery.QueryExecutionId this) None),
                        Batch b]\<rparr>))"
proof -
  let ?w1 = "w\<lparr>expectedGetResults := rest,
               trace := trace w @
                 [Sent (GetQueryResultsCommand (AthenaQuery.QueryExecutionId this) None)]\<rparr>"
  have fetch: "getResults (AthenaQuery.QueryExecutionId this) None True [] w =
      (Inr \<lparr>Data = b, NextToken = GetQueryResultsCommandOutput.NextToken response,
            fieldNames = headerFieldNames (responseRows response)\<rparr>, ?w1)"
    using getResults_fetched [OF assms(1,2), of _ _ True "[]"] assms(3) by simp
  show ?thesis
    by (simp add: getResultsInBatches_def fetch callBatchProcessor_def batchesOf_Sent
             split: option.splits)
qed

lemma whileNextToken_step:
  assumes "expectedGetResults w = response # rest"
    and "httpStatusCode response = Some 200"
    and "rowsToData (responseRows response) fns = Inr b"
  shows "whileNextToken this fns (Some t) w =
           (case batchProcessor this (batchesOf (trace w)) b of
              Some reason \<Rightarrow>
                (Inl (BatchProcessorRejected reason),
                 w\<lparr>expectedGetResults := rest,
                   trace := trace w @
                     [Sent (GetQueryResultsCommand (AthenaQuery.QueryExecutionId this) (Some t)),
                      Batch b]\<rparr>)
            | None \<Rightarrow>
                whileNextToken this fns (GetQueryResultsCommandOutput.NextToken response)
                  (w\<lparr>expectedGetResults := rest,
                     trace := trace w @
                       [Sent (GetQueryResultsCommand (AthenaQuery.QueryExecutionId this) (Some t)),
                        Batch b]\<rparr>))"
proof -
  let ?w1 = "w\<lparr>expectedGetResults := rest,
               trace := trace w @
                 [Sent (GetQueryResultsCommand (AthenaQuery.QueryExecutionId this) (Some t))]\<rparr>"
  have fetch: "getResults (AthenaQuery.QueryExecutionId this) (Some t) False fns w =
      (Inr \<lparr>Data = b, NextToken = GetQueryResultsCommandOutput.NextToken response,
            fieldNames = fns\<rparr>, ?w1)"
    using getResults_fetched [OF assms(1,2), of _ _ False fns] assms(3) by simp
  show ?thesis
    by (subst whileNextToken.simps)
       (simp add: fetch callBatchProcessor_def batchesOf_Sent split: option.splits)
qed

lemma whileNextToken_done: "whileNextToken this fns None w = (Inr (), w)"
  by (simp add: whileNextToken.simps)

text \<open>
  C6. A page fetched with status 200 that yields no data record is still handed to the
  batch processor, as the empty batch, right after its fetch, and the runner raises no
  error for it: if the processor's promise resolves, the run goes on with the page's
  continuation token, and ends normally when the page has none. This holds for a first
  page whose row list is absent, empty or only the header row, and for a later page
  whose row list is absent or empty.
\<close>

theorem empty_page_still_delivered:
  assumes "expectedGetResults w = response # rest"
    and "httpStatusCode response = Some 200"
    and "w1 = w\<lparr>expectedGetResults := rest,
                trace := trace w @
                  [Sent (GetQueryResultsCommand (AthenaQuery.QueryExecutionId this) None),
                   Batch []]\<rparr>"
    and "w2 = w\<lparr>expectedGetResults := rest,
                trace := trace w @
                  [Sent (GetQueryResultsCommand (AthenaQuery.QueryExecutionId this) (Some t)),
                   Batch []]\<rparr>"
  shows "((responseRows response = None \<or> responseRows response = Some []
            \<or> (\<exists>header. responseRows response = Some [header])) \<longrightarrow>
          (\<exists>es. trace (snd (getResultsInBatches this w)) = trace w1 @ es)
          \<and> (batchProcessor this (batchesOf (trace w)) [] = None \<longrightarrow>
               getResultsInBatches this w =
                 whileNextToken this (headerFieldNames (responseRows response))
                   (GetQueryResultsCommandOutput.NextToken response) w1
               \<and> (GetQueryResultsCommandOutput.NextToken response = None \<longrightarrow>
                    getResultsInBatches this w = (Inr (), w1))))
       \<and> ((responseRows response = None \<or> responseRows response = Some []) \<longrightarrow>
          (\<exists>es. trace (snd (whileNextToken this fns (Some t) w)) = trace w2 @ es)
          \<and> (batchProcessor this (batchesOf (trace w)) [] = None \<longrightarrow>
               whileNextToken this fns (Some t) w =
                 whileNextToken this fns (GetQueryResultsCommandOutput.NextToken response) w2
               \<and> (GetQueryResultsCommandOutput.NextToken response = None \<longrightarrow>
                    whileNextToken this fns (Some t) w = (Inr (), w2))))"
proof (intro conjI impI)
  assume shape: "responseRows response = None \<or> responseRows response = Some []
            \<or> (\<exists>header. responseRows response = Some [header])"
  then have conv: "rowsToData (map_option (drop 1) (responseRows response))
           (headerFieldNames (responseRows response)) = Inr []"
    by (auto simp: rowsToData_def)
  note run = getResultsInBatches_first [OF assms(1,2) conv, of this, folded assms(3)]
  show "\<exists>es. trace (snd (getResultsInBatches this w)) = trace w1 @ es"
  proof (cases "batchProcessor this (batchesOf (trace w)) []")
    case None
    then show ?thesis using run whileNextToken_trace by simp
  next
    case (Some reason)
    then show ?thesis using run by simp
  qed
  {
    assume acc: "batchProcessor this (batchesOf (trace w)) [] = None"
    then show goes: "getResultsInBatches this w =
        whileNextToken this (headerFieldNames (responseRows response))
          (GetQueryResultsCommandOutput.NextToken response) w1"
      using run by simp
    assume "GetQueryResultsCommandOutput.NextToken response = None"
    then show "getResultsInBatches this w = (Inr (), w1)"
      using goes by (simp add: whileNextToken_done)
  }
next
  assume shape: "responseRows response = None \<or> responseRows response = Some []"
  then have conv: "rowsToData (responseRows response) fns = Inr []"
    by (auto simp: rowsToData_def)
  note run = whileNextToken_step [OF assms(1,2) conv, of this t, folded assms(4)]
  show "\<exists>es. trace (snd (whileNextToken this fns (Some t) w)) = trace w2 @ es"
  proof (cases "batchProcessor this (batchesOf (trace w)) []")
    case None
    then show ?thesis using run whileNextToken_trace by simp
  next
    case (Some reason)
    then show ?thesis using run by simp
  qed
  {
    assume acc: "batchProcessor this (batchesOf (trace w)) [] = None"
    then show goes: "whileNextToken this fns (Some t) w =
        whileNextToken this fns (GetQueryResultsCommandOutput.NextToken response) w2"
      using run by simp
    assume "GetQueryResultsCommandOutput.NextToken response = None"
    then show "whileNextToken this fns (Some t) w = (Inr (), w2)"
      using goes by (simp add: whileNextToken_done)
  }
qed

text \<open>
  An instance: a first page that holds only the header row and carries no token, and a
  batch processor that always resolves. The empty batch is delivered and the run ends
  normally.
\<close>

theorem empty_page_still_delivered_witness:
  "getResultsInBatches
     \<lparr>query = ''select 1'', batchProcessor = (\<lambda>earlier rows. None),
      QueryExecutionId = Some ''abc-xyz'', sleepMs = 0\<rparr>
     \<lparr>expectedStartQueries = [], expectedWaitForSuccessfulResults = [],
      expectedGetResults =
        [\<lparr>httpStatusCode = Some 200,
          ResultSet = Some \<lparr>Rows = Some [\<lparr>Row.Data = Some [\<lparr>VarCharValue = Some ''n''\<rparr>]\<rparr>]\<rparr>,
          GetQueryResultsCommandOutput.NextToken = None\<rparr>],
      trace = []\<rparr>
   = (Inr (),
      \<lparr>expectedStartQueries = [], expectedWaitForSuccessfulResults = [],
       expectedGetResults = [],
       trace = [Sent (GetQueryResultsCommand (Some ''abc-xyz'') None), Batch []]\<rparr>)"
proof -
  let ?runner = "\<lparr>query = ''select 1'', batchProcessor = (\<lambda>earlier rows. None),
                QueryExecutionId = Some ''abc-xyz'', sleepMs = 0\<rparr>"
  let ?response = "\<lparr>httpStatusCode = Some 200,
          ResultSet = Some \<lparr>Rows = Some [\<lparr>Row.Data = Some [\<lparr>VarCharValue = Some ''n''\<rparr>]\<rparr>]\<rparr>,
          GetQueryResultsCommandOutput.NextToken = None\<rparr>"
  let ?w = "\<lparr>expectedStartQueries = [], expectedWaitForSuccessfulResults = [],
             expectedGetResults = [?response], trace = []\<rparr>"
  let ?w1 = "\<lparr>expectedStartQueries = [], expectedWaitForSuccessfulResults = [],
       expectedGetResults = [],
       trace = [Sent (GetQueryResultsCommand (Some ''abc-xyz'') None), Batch []]\<rparr>"
  let ?w2 = "\<lparr>expectedStartQueries = [], expectedWaitForSuccessfulResults = [],
       expectedGetResults = [],
       trace = [Sent (GetQueryResultsCommand (Some ''abc-xyz'') (Some ''t'')), Batch []]\<rparr>"
  have 1: "expectedGetResults ?w = ?response # []"
    by simp
  have 2: "httpStatusCode ?response = Some 200"
    by simp
  have 3: "?w1 = ?w\<lparr>expectedGetResults := [],
                trace := trace ?w @
                  [Sent (GetQueryResultsCommand (AthenaQuery.QueryExecutionId ?runner) None),
                   Batch []]\<rparr>"
    by simp
  have 4: "?w2 = ?w\<lparr>expectedGetResults := [],
                trace := trace ?w @
                  [Sent (GetQueryResultsCommand (AthenaQuery.QueryExecutionId ?runner) (Some ''t'')),
                   Batch []]\<rparr>"
    by simp
  have 5: "responseRows ?response = None \<or> responseRows ?response = Some []
            \<or> (\<exists>header. responseRows ?response = Some [header])"
    by (simp add: responseRows_def)
  have 6: "batchProcessor ?runner (batchesOf (trace ?w)) [] = None"
    by simp
  have 7: "GetQueryResultsCommandOutput.NextToken ?response = None"
    by simp
  from empty_page_still_delivered [OF 1 2 3 4, of "[]"] 5 6 7
  show ?thesis by blast
qed

section \<open>The stages of a run\<close>

lemma startQuery_Inr:
  "startQuery this0 w0 = (Inr u, this, w) \<Longrightarrow> AthenaQuery.QueryExecutionId this \<noteq> None"
  by (auto simp: startQuery_def Let_def split: prod.splits sum.splits if_splits)

lemma processQuery_stages:
  assumes "AthenaQuery.QueryExecutionId this0 = None"
    and "startQuery this0 w0 = (Inr (), this, w)"
  shows "processQuery this0 w0 =
           (case waitForSuccessfulResult this w of
              (Inl e, w2) \<Rightarrow> (Inl e, this, w2)
            | (Inr u, w2) \<Rightarrow>
                (case getResultsInBatches this w2 of (r, w3) \<Rightarrow> (r, this, w3)))"
  using assms startQuery_Inr [OF assms(2)] by (auto simp: processQuery_def)

subsection \<open>Polling\<close>







subsection \<open>The history only grows\<close>

lemma sendGetQueryExecution_trace:
  "sendGetQueryExecution eid w = (r, w1) \<Longrightarrow>
   trace w1 = trace w @ [Sent (GetQueryExecutionCommand eid)]"
  by (auto simp: sendGetQueryExecution_def Let_def split: list.splits)

lemma whileNotTerminal_trace:
  "\<exists>es. trace (snd (whileNotTerminal this stateResponse w)) = trace w @ es"
proof (induction this stateResponse w rule: whileNotTerminal.induct)
  case (1 this stateResponse w)
  show ?case
  proof (cases "isTerminalState (getState stateResponse)")
    case True
    then show ?thesis by (simp add: whileNotTerminal.simps)
  next
    case False
    let ?w0 = "if 0 < sleepMs this then sleep (sleepMs this) w else w"
    obtain r w1 where s: "sendGetQueryExecution (AthenaQuery.QueryExecutionId this) ?w0 = (r, w1)"
      by (cases "sendGetQueryExecution (AthenaQuery.QueryExecutionId this) ?w0")
    have t0: "\<exists>es. trace ?w0 = trace w @ es"
      by (simp add: sleep_def)
    note t1 = sendGetQueryExecution_trace [OF s]
    show ?thesis
    proof (cases r)
      case (Inl e)
      then show ?thesis
        using False s t0 t1 by (subst whileNotTerminal.simps) auto
    next
      case (Inr stateResponse1)
      from "1.IH" [OF False s [symmetric] Inr]
      obtain es where "trace (snd (whileNotTerminal this stateResponse1 w1)) = trace w1 @ es"
        by blast
      then show ?thesis
        using False s Inr t0 t1 by (subst whileNotTerminal.simps) auto
    qed
  qed
qed

lemma waitForSuccessfulResult_trace:
  "\<exists>es. trace (snd (waitForSuccessfulResult this w)) =
          trace w @ Sent (GetQueryExecutionCommand (AthenaQuery.QueryExecutionId this)) # es"
proof -
  obtain r w1 where s: "sendGetQueryExecution (AthenaQuery.QueryExecutionId this) w = (r, w1)"
    by (cases "sendGetQueryExecution (AthenaQuery.QueryExecutionId this) w")
  note t1 = sendGetQueryExecution_trace [OF s]
  show ?thesis
  proof (cases r)
    case (Inl e)
    then show ?thesis using s t1 by (simp add: waitForSuccessfulResult_def)
  next
    case (Inr stateResponse)
    obtain es where "trace (snd (whileNotTerminal this stateResponse w1)) = trace w1 @ es"
      using whileNotTerminal_trace by blast
    then show ?thesis
      using s Inr t1
      by (cases "whileNotTerminal this stateResponse w1")
         (auto simp: waitForSuccessfulResult_def Let_def split: sum.splits)
  qed
qed

lemma getResultsInBatches_trace:
  "\<exists>es. trace (snd (getResultsInBatches this w)) = trace w @ es"
proof -
  obtain r w1 where g: "getResults (AthenaQuery.QueryExecutionId this) None True [] w = (r, w1)"
    by (cases "getResults (AthenaQuery.QueryExecutionId this) None True [] w")
  note t1 = getResults_trace [OF g]
  show ?thesis
  proof (cases r)
    case (Inl e)
    then show ?thesis using g t1 by (simp add: getResultsInBatches_def)
  next
    case (Inr results)
    obtain r2 w2 where c: "callBatchProcessor this (GetResultOutput.Data results) w1 = (r2, w2)"
      by (cases "callBatchProcessor this (GetResultOutput.Data results) w1")
    note t2 = callBatchProcessor_trace [OF c]
    obtain es where "trace (snd (whileNextToken this (fieldNames results)
        (GetResultOutput.NextToken results) w2)) = trace w2 @ es"
      using whileNextToken_trace by blast
    then show ?thesis
      using g Inr c t1 t2 by (cases r2) (simp_all add: getResultsInBatches_def)
  qed
qed

lemma processQuery_stages_trace:
  assumes "AthenaQuery.QueryExecutionId this0 = None"
    and "startQuery this0 w0 = (Inr (), this, w)"
  shows "\<exists>es. trace (snd (snd (processQuery this0 w0))) =
           trace w @ Sent (GetQueryExecutionCommand (AthenaQuery.QueryExecutionId this)) # es"
proof -
  obtain r w2 where wt: "waitForSuccessfulResult this w = (r, w2)"
    by (cases "waitForSuccessfulResult this w")
  from waitForSuccessfulResult_trace [of this w] obtain es
    where t: "trace w2 = trace w @ Sent (GetQueryExecutionCommand (AthenaQuery.QueryExecutionId this)) # es"
    using wt by auto
  show ?thesis
  proof (cases r)
    case (Inl e)
    then show ?thesis using wt t by (simp add: processQuery_stages [OF assms])
  next
    case (Inr u)
    obtain es' where "trace (snd (getResultsInBatches this w2)) = trace w2 @ es'"
      using getResultsInBatches_trace by blast
    then show ?thesis
      using wt Inr t
      by (cases "getResultsInBatches this w2") (simp add: processQuery_stages [OF assms])
  qed
qed

subsection \<open>Submission\<close>

lemma startQuery_response:
  assumes "expectedStartQueries w = startResponse # rest"
  shows "startQuery this w =
           (if StartQueryExecutionCommandOutput.QueryExecutionId startResponse = None
            then Inl (ExpectedQueryExecutionIdAfterStart startResponse) else Inr (),
            this\<lparr>QueryExecutionId :=
                   StartQueryExecutionCommandOutput.QueryExecutionId startResponse\<rparr>,
            w\<lparr>expectedStartQueries := rest,
              trace := trace w @ [Sent (StartQueryExecutionCommand (query this))]\<rparr>)"
  using assms by (auto simp: startQuery_def sendStartQueryExecution_def Let_def)

text \<open>
  C7 (amended). Let a fresh runner receive the submission response \<open>startResponse\<close>. If
  the response carries no \<^verbatim>\<open>QueryExecutionId\<close>, the run fails with the submission error
  right after the start command: nothing else is sent and the batch processor is not
  called. If it carries one, whatever string it is, the runner records it and the next
  command sent is the status fetch for this id: the run is the polling stage followed,
  on success, by the retrieval stage.
\<close>

theorem processQuery_submission:
  assumes "AthenaQuery.QueryExecutionId this = None"
    and "expectedStartQueries w = startResponse # rest"
    and "w1 = w\<lparr>expectedStartQueries := rest,
                trace := trace w @ [Sent (StartQueryExecutionCommand (query this))]\<rparr>"
  shows "(StartQueryExecutionCommandOutput.QueryExecutionId startResponse = None \<longrightarrow>
            processQuery this w =
              (Inl (ExpectedQueryExecutionIdAfterStart startResponse), this, w1))
         \<and> (\<forall>h. StartQueryExecutionCommandOutput.QueryExecutionId startResponse = Some h \<longrightarrow>
               processQuery this w =
                 (case waitForSuccessfulResult (this\<lparr>QueryExecutionId := Some h\<rparr>) w1 of
                    (Inl e, w2) \<Rightarrow> (Inl e, this\<lparr>QueryExecutionId := Some h\<rparr>, w2)
                  | (Inr u, w2) \<Rightarrow>
                      (case getResultsInBatches (this\<lparr>QueryExecutionId := Some h\<rparr>) w2 of
                         (r, w3) \<Rightarrow> (r, this\<lparr>QueryExecutionId := Some h\<rparr>, w3)))
               \<and> (\<exists>es. trace (snd (snd (processQuery this w))) =
                          trace w1 @ Sent (GetQueryExecutionCommand (Some h)) # es))"
proof (intro conjI allI impI)
  assume none: "StartQueryExecutionCommandOutput.QueryExecutionId startResponse = None"
  have "this\<lparr>QueryExecutionId := None\<rparr> = this"
    using assms(1) by (cases this) simp
  then show "processQuery this w =
      (Inl (ExpectedQueryExecutionIdAfterStart startResponse), this, w1)"
    using assms(1) none
    by (simp add: processQuery_def startQuery_response [OF assms(2)] assms(3))
next
  fix h
  assume some: "StartQueryExecutionCommandOutput.QueryExecutionId startResponse = Some h"
  have start: "startQuery this w = (Inr (), this\<lparr>QueryExecutionId := Some h\<rparr>, w1)"
    using some by (simp add: startQuery_response [OF assms(2)] assms(3))
  show "processQuery this w =
          (case waitForSuccessfulResult (this\<lparr>QueryExecutionId := Some h\<rparr>) w1 of
             (Inl e, w2) \<Rightarrow> (Inl e, this\<lparr>QueryExecutionId := Some h\<rparr>, w2)
           | (Inr u, w2) \<Rightarrow>
               (case getResultsInBatches (this\<lparr>QueryExecutionId := Some h\<rparr>) w2 of
                  (r, w3) \<Rightarrow> (r, this\<lparr>QueryExecutionId := Some h\<rparr>, w3)))"
    by (rule processQuery_stages [OF assms(1) start])
  show "\<exists>es. trace (snd (snd (processQuery this w))) =
          trace w1 @ Sent (GetQueryExecutionCommand (Some h)) # es"
    using processQuery_stages_trace [OF assms(1) start] by simp
qed

text \<open>
  An instance: the response of the repository's test \<^verbatim>\<open>StartQuery failed\<close>, which has
  no \<^verbatim>\<open>QueryExecutionId\<close>. Only the start command is sent.
\<close>

theorem processQuery_submission_witness:
  "processQuery
     \<lparr>query = ''select 1'', batchProcessor = (\<lambda>earlier rows. None),
      QueryExecutionId = None, sleepMs = 500\<rparr>
     \<lparr>expectedStartQueries =
        [\<lparr>StartQueryExecutionCommandOutput.QueryExecutionId = None\<rparr>],
      expectedWaitForSuccessfulResults = [], expectedGetResults = [], trace = []\<rparr>
   = (Inl (ExpectedQueryExecutionIdAfterStart
             \<lparr>StartQueryExecutionCommandOutput.QueryExecutionId = None\<rparr>),
      \<lparr>query = ''select 1'', batchProcessor = (\<lambda>earlier rows. None),
       QueryExecutionId = None, sleepMs = 500\<rparr>,
      \<lparr>expectedStartQueries = [], expectedWaitForSuccessfulResults = [],
       expectedGetResults = [],
       trace = [Sent (StartQueryExecutionCommand ''select 1'')]\<rparr>)"
proof -
  let ?runner = "\<lparr>query = ''select 1'', batchProcessor = (\<lambda>earlier rows. None),
                  QueryExecutionId = None, sleepMs = 500\<rparr> :: AthenaQuery"
  let ?response = "\<lparr>StartQueryExecutionCommandOutput.QueryExecutionId = None\<rparr>"
  let ?w = "\<lparr>expectedStartQueries = [?response],
             expectedWaitForSuccessfulResults = [], expectedGetResults = [], trace = []\<rparr>"
  let ?w1 = "\<lparr>expectedStartQueries = [], expectedWaitForSuccessfulResults = [],
              expectedGetResults = [],
              trace = [Sent (StartQueryExecutionCommand ''select 1'')]\<rparr>"
  have 1: "AthenaQuery.QueryExecutionId ?runner = None"
    by simp
  have 2: "expectedStartQueries ?w = ?response # []"
    by simp
  have 3: "?w1 = ?w\<lparr>expectedStartQueries := [],
                trace := trace ?w @ [Sent (StartQueryExecutionCommand (query ?runner))]\<rparr>"
    by simp
  have 4: "StartQueryExecutionCommandOutput.QueryExecutionId ?response = None"
    by simp
  from processQuery_submission [OF 1 2 3, THEN conjunct1, rule_format, OF 4]
  show ?thesis .
qed

text \<open>
  C7 as first stated counts an empty handle as unusable. The code tests for
  \<^verbatim>\<open>undefined\<close> only: with the empty string as \<^verbatim>\<open>QueryExecutionId\<close> the run does not fail
  at submission; it polls and retrieves with the empty id, and here it succeeds.
\<close>

theorem processQuery_empty_handle_counterexample:
  "processQuery
     \<lparr>query = ''select 1'', batchProcessor = (\<lambda>earlier rows. None),
      QueryExecutionId = None, sleepMs = 500\<rparr>
     \<lparr>expectedStartQueries =
        [\<lparr>StartQueryExecutionCommandOutput.QueryExecutionId = Some ''''\<rparr>],
      expectedWaitForSuccessfulResults =
        [\<lparr>QueryExecution = Some \<lparr>Status = Some \<lparr>State = Some ''SUCCEEDED''\<rparr>\<rparr>\<rparr>],
      expectedGetResults =
        [\<lparr>httpStatusCode = Some 200, ResultSet = None,
          GetQueryResultsCommandOutput.NextToken = None\<rparr>],
      trace = []\<rparr>
   = (Inr (),
      \<lparr>query = ''select 1'', batchProcessor = (\<lambda>earlier rows. None),
       QueryExecutionId = Some '''', sleepMs = 500\<rparr>,
      \<lparr>expectedStartQueries = [], expectedWaitForSuccessfulResults = [],
       expectedGetResults = [],
       trace = [Sent (StartQueryExecutionCommand ''select 1''),
                Sent (GetQueryExecutionCommand (Some '''')),
                Sent (GetQueryResultsCommand (Some '''') None),
                Batch []]\<rparr>)"
  by (simp add: processQuery_def startQuery_def sendStartQueryExecution_def
        waitForSuccessfulResult_def sendGetQueryExecution_def whileNotTerminal.simps
        getState_def isTerminalState_def getResultsInBatches_def getResults_def
        sendGetQueryResults_def responseRows_def headerFieldNames_def headerData_def
        rowsToData_def callBatchProcessor_def whileNextToken.simps)

subsection \<open>Single use\<close>

lemma processQuery_used:
  "AthenaQuery.QueryExecutionId this \<noteq> None \<Longrightarrow>
   processQuery this w = (Inl CanOnlyBeUsedOnce, this, w)"
  by (simp add: processQuery_def)

lemma processQueryCall_used:
  "AthenaQuery.QueryExecutionId this \<noteq> None \<Longrightarrow>
   processQueryCall this w = (Inl CanOnlyBeUsedOnce, w)"
  by (simp add: processQueryCall_def)

text \<open>
  The call run without interruption is its three pieces, each one taking the runner and
  the world as the piece before left them.
\<close>

lemma processQuery_uninterrupted:
  "processQuery this w =
     (case processQueryCall this w of
        (Inl e, w1) \<Rightarrow> (Inl e, this, w1)
      | (Inr answer, w1) \<Rightarrow>
          (case startQueryResume this answer of
             (started, this1) \<Rightarrow> processQueryResume this1 started w1))"
  by (cases "sendStartQueryExecution (query this) w")
     (auto simp: processQuery_def processQueryCall_def startQuery_def startQueryResume_def
                 processQueryResume_def Let_def
           split: sum.splits prod.splits)

lemma processQueryResume_runner:
  "processQueryResume this1 started w1 = (res, this', w') \<Longrightarrow> this' = this1"
  by (auto simp: processQueryResume_def split: sum.splits if_splits prod.splits)

text \<open>
  C1 (amended). Let a call of \<^verbatim>\<open>processQuery\<close> begin on a fresh runner while no other
  call on the runner is waiting for its submission, and let no other call begin before
  this one has stored its handle: its synchronous part, the rest of \<^verbatim>\<open>startQuery\<close>, and
  the rest of the run take the runner as the piece before left it. If submission
  returned an execution handle, then as
  soon as \<^verbatim>\<open>startQuery\<close> has stored it, and however the run ends afterwards, every
  invocation of \<^verbatim>\<open>processQuery\<close> on the runner fails with
  \<^verbatim>\<open>AthenaQuery can only be used once.\<close> in its synchronous part, before any \<^verbatim>\<open>await\<close>: it
  sends nothing, reads nothing from the client, does not call the batch processor, and
  leaves the runner and the world, with all that the first run did, as they are.
  Nothing is said of a call that begins while another call is still waiting for its
  submission.
\<close>

theorem processQuery_single_use:
  assumes "AthenaQuery.QueryExecutionId this = None"
    and "expectedStartQueries w = startResponse # rest"
    and "StartQueryExecutionCommandOutput.QueryExecutionId startResponse = Some h"
    and "processQueryCall this w = (Inr answer, w1)"
    and "startQueryResume this answer = (started, this1)"
    and "processQueryResume this1 started w1 = (res, this', w')"
  shows "processQuery this w = (res, this', w')
         \<and> AthenaQuery.QueryExecutionId this1 = Some h
         \<and> this' = this1
         \<and> (\<forall>v. processQueryCall this1 v = (Inl CanOnlyBeUsedOnce, v))
         \<and> (\<forall>v. processQuery this' v = (Inl CanOnlyBeUsedOnce, this', v))"
proof -
  have run: "processQuery this w = (res, this', w')"
    by (simp add: processQuery_uninterrupted assms(4,5,6))
  have "answer = Inr startResponse"
    using assms(1,2,4) by (auto simp: processQueryCall_def sendStartQueryExecution_def)
  then have "this1 = this\<lparr>QueryExecutionId := Some h\<rparr>"
    using assms(3,5) by (auto simp: startQueryResume_def Let_def split: if_splits)
  then have stored: "AthenaQuery.QueryExecutionId this1 = Some h"
    by simp
  have same: "this' = this1"
    using assms(6) by (rule processQueryResume_runner)
  have "processQueryCall this1 v = (Inl CanOnlyBeUsedOnce, v)" for v
    using stored by (intro processQueryCall_used) simp
  moreover have "processQuery this' v = (Inl CanOnlyBeUsedOnce, this', v)" for v
    using stored same by (intro processQuery_used) simp
  ultimately show ?thesis
    using run stored same by blast
qed

text \<open>
  An instance: the first run obtains the handle \<^verbatim>\<open>abc-xyz\<close> and then fails, because the
  query's state is \<^verbatim>\<open>FAILED\<close>. The second invocation is refused and changes nothing,
  although the client still has a submission output waiting.
\<close>

theorem processQuery_single_use_witness:
  "processQuery
     \<lparr>query = ''select 1'', batchProcessor = (\<lambda>earlier rows. None),
      QueryExecutionId = Some ''abc-xyz'', sleepMs = 0\<rparr>
     \<lparr>expectedStartQueries =
        [\<lparr>StartQueryExecutionCommandOutput.QueryExecutionId = Some ''def''\<rparr>],
      expectedWaitForSuccessfulResults = [],
      expectedGetResults = [],
      trace = [Sent (StartQueryExecutionCommand ''select 1''),
               Sent (GetQueryExecutionCommand (Some ''abc-xyz''))]\<rparr>
   = (Inl CanOnlyBeUsedOnce,
      \<lparr>query = ''select 1'', batchProcessor = (\<lambda>earlier rows. None),
       QueryExecutionId = Some ''abc-xyz'', sleepMs = 0\<rparr>,
      \<lparr>expectedStartQueries =
         [\<lparr>StartQueryExecutionCommandOutput.QueryExecutionId = Some ''def''\<rparr>],
       expectedWaitForSuccessfulResults = [],
       expectedGetResults = [],
       trace = [Sent (StartQueryExecutionCommand ''select 1''),
                Sent (GetQueryExecutionCommand (Some ''abc-xyz''))]\<rparr>)"
proof -
  let ?fresh = "\<lparr>query = ''select 1'', batchProcessor = (\<lambda>earlier rows. None),
                 QueryExecutionId = None, sleepMs = 0\<rparr> :: AthenaQuery"
  let ?used = "\<lparr>query = ''select 1'', batchProcessor = (\<lambda>earlier rows. None),
                QueryExecutionId = Some ''abc-xyz'', sleepMs = 0\<rparr> :: AthenaQuery"
  let ?r1 = "\<lparr>StartQueryExecutionCommandOutput.QueryExecutionId = Some ''abc-xyz''\<rparr>"
  let ?r2 = "\<lparr>StartQueryExecutionCommandOutput.QueryExecutionId = Some ''def''\<rparr>"
  let ?failed = "\<lparr>QueryExecution = Some \<lparr>Status = Some \<lparr>State = Some ''FAILED''\<rparr>\<rparr>\<rparr>"
  let ?w = "\<lparr>expectedStartQueries = [?r1, ?r2],
             expectedWaitForSuccessfulResults = [?failed],
             expectedGetResults = [], trace = []\<rparr>"
  let ?w1 = "\<lparr>expectedStartQueries = [?r2],
              expectedWaitForSuccessfulResults = [?failed],
              expectedGetResults = [],
              trace = [Sent (StartQueryExecutionCommand ''select 1'')]\<rparr>"
  let ?w' = "\<lparr>expectedStartQueries = [?r2],
              expectedWaitForSuccessfulResults = [],
              expectedGetResults = [],
              trace = [Sent (StartQueryExecutionCommand ''select 1''),
                       Sent (GetQueryExecutionCommand (Some ''abc-xyz''))]\<rparr>"
  have 1: "AthenaQuery.QueryExecutionId ?fresh = None"
    by simp
  have 2: "expectedStartQueries ?w = ?r1 # [?r2]"
    by simp
  have 3: "StartQueryExecutionCommandOutput.QueryExecutionId ?r1 = Some ''abc-xyz''"
    by simp
  have 4: "processQueryCall ?fresh ?w = (Inr (Inr ?r1), ?w1)"
    by (simp add: processQueryCall_def sendStartQueryExecution_def)
  have 5: "startQueryResume ?fresh (Inr ?r1) = (Inr (), ?used)"
    by (simp add: startQueryResume_def)
  have 6: "processQueryResume ?used (Inr ()) ?w1 =
      (Inl (UnsupportedResponseState (Some ''FAILED'')), ?used, ?w')"
    by (simp add: processQueryResume_def waitForSuccessfulResult_def sendGetQueryExecution_def
          whileNotTerminal.simps getState_def isTerminalState_def)
  from processQuery_single_use [OF 1 2 3 4 5 6]
  have "\<forall>v. processQuery ?used v = (Inl CanOnlyBeUsedOnce, ?used, v)"
    by blast
  then show ?thesis by blast
qed

text \<open>
  C1 as first stated covers a first run that ended in any way, and any second
  invocation. It fails in two ways. A first run that obtained no handle: its submission
  response has no \<^verbatim>\<open>QueryExecutionId\<close>, the run fails, and the second invocation on the same
  runner is not refused: it submits again and runs to the end. And a second invocation
  that begins while the first is waiting for its submission: both pass the guard and both
  submit; when the second response, which has no \<^verbatim>\<open>QueryExecutionId\<close>, is stored after the
  first, the handle of the first is lost, the first call fails at its second test, and a
  third invocation is not refused either.
\<close>

theorem processQuery_reuse_counterexample:
  "processQuery
     \<lparr>query = ''select 1'', batchProcessor = (\<lambda>earlier rows. None),
      QueryExecutionId = None, sleepMs = 0\<rparr>
     \<lparr>expectedStartQueries =
        [\<lparr>StartQueryExecutionCommandOutput.QueryExecutionId = None\<rparr>,
         \<lparr>StartQueryExecutionCommandOutput.QueryExecutionId = Some ''abc-xyz''\<rparr>],
      expectedWaitForSuccessfulResults =
        [\<lparr>QueryExecution = Some \<lparr>Status = Some \<lparr>State = Some ''SUCCEEDED''\<rparr>\<rparr>\<rparr>],
      expectedGetResults =
        [\<lparr>httpStatusCode = Some 200, ResultSet = None,
          GetQueryResultsCommandOutput.NextToken = None\<rparr>],
      trace = []\<rparr>
   = (Inl (ExpectedQueryExecutionIdAfterStart
             \<lparr>StartQueryExecutionCommandOutput.QueryExecutionId = None\<rparr>),
      \<lparr>query = ''select 1'', batchProcessor = (\<lambda>earlier rows. None),
       QueryExecutionId = None, sleepMs = 0\<rparr>,
      \<lparr>expectedStartQueries =
         [\<lparr>StartQueryExecutionCommandOutput.QueryExecutionId = Some ''abc-xyz''\<rparr>],
       expectedWaitForSuccessfulResults =
         [\<lparr>QueryExecution = Some \<lparr>Status = Some \<lparr>State = Some ''SUCCEEDED''\<rparr>\<rparr>\<rparr>],
       expectedGetResults =
         [\<lparr>httpStatusCode = Some 200, ResultSet = None,
           GetQueryResultsCommandOutput.NextToken = None\<rparr>],
       trace = [Sent (StartQueryExecutionCommand ''select 1'')]\<rparr>)
   \<and> processQuery
     \<lparr>query = ''select 1'', batchProcessor = (\<lambda>earlier rows. None),
      QueryExecutionId = None, sleepMs = 0\<rparr>
     \<lparr>expectedStartQueries =
        [\<lparr>StartQueryExecutionCommandOutput.QueryExecutionId = Some ''abc-xyz''\<rparr>],
      expectedWaitForSuccessfulResults =
        [\<lparr>QueryExecution = Some \<lparr>Status = Some \<lparr>State = Some ''SUCCEEDED''\<rparr>\<rparr>\<rparr>],
      expectedGetResults =
        [\<lparr>httpStatusCode = Some 200, ResultSet = None,
          GetQueryResultsCommandOutput.NextToken = None\<rparr>],
      trace = [Sent (StartQueryExecutionCommand ''select 1'')]\<rparr>
   = (Inr (),
      \<lparr>query = ''select 1'', batchProcessor = (\<lambda>earlier rows. None),
       QueryExecutionId = Some ''abc-xyz'', sleepMs = 0\<rparr>,
      \<lparr>expectedStartQueries = [], expectedWaitForSuccessfulResults = [],
       expectedGetResults = [],
       trace = [Sent (StartQueryExecutionCommand ''select 1''),
                Sent (StartQueryExecutionCommand ''select 1''),
                Sent (GetQueryExecutionCommand (Some ''abc-xyz'')),
                Sent (GetQueryResultsCommand (Some ''abc-xyz'') None),
                Batch []]\<rparr>)
   \<and> processQueryCall
     \<lparr>query = ''select 1'', batchProcessor = (\<lambda>earlier rows. None),
      QueryExecutionId = None, sleepMs = 0\<rparr>
     \<lparr>expectedStartQueries =
        [\<lparr>StartQueryExecutionCommandOutput.QueryExecutionId = Some ''abc-xyz''\<rparr>,
         \<lparr>StartQueryExecutionCommandOutput.QueryExecutionId = None\<rparr>],
      expectedWaitForSuccessfulResults = [], expectedGetResults = [], trace = []\<rparr>
   = (Inr (Inr \<lparr>StartQueryExecutionCommandOutput.QueryExecutionId = Some ''abc-xyz''\<rparr>),
      \<lparr>expectedStartQueries =
         [\<lparr>StartQueryExecutionCommandOutput.QueryExecutionId = None\<rparr>],
       expectedWaitForSuccessfulResults = [], expectedGetResults = [],
       trace = [Sent (StartQueryExecutionCommand ''select 1'')]\<rparr>)
   \<and> processQueryCall
     \<lparr>query = ''select 1'', batchProcessor = (\<lambda>earlier rows. None),
      QueryExecutionId = None, sleepMs = 0\<rparr>
     \<lparr>expectedStartQueries =
        [\<lparr>StartQueryExecutionCommandOutput.QueryExecutionId = None\<rparr>],
      expectedWaitForSuccessfulResults = [], expectedGetResults = [],
      trace = [Sent (StartQueryExecutionCommand ''select 1'')]\<rparr>
   = (Inr (Inr \<lparr>StartQueryExecutionCommandOutput.QueryExecutionId = None\<rparr>),
      \<lparr>expectedStartQueries = [],
       expectedWaitForSuccessfulResults = [], expectedGetResults = [],
       trace = [Sent (StartQueryExecutionCommand ''select 1''),
                Sent (StartQueryExecutionCommand ''select 1'')]\<rparr>)
   \<and> startQueryResume
     \<lparr>query = ''select 1'', batchProcessor = (\<lambda>earlier rows. None),
      QueryExecutionId = None, sleepMs = 0\<rparr>
     (Inr \<lparr>StartQueryExecutionCommandOutput.QueryExecutionId = Some ''abc-xyz''\<rparr>)
   = (Inr (),
      \<lparr>query = ''select 1'', batchProcessor = (\<lambda>earlier rows. None),
       QueryExecutionId = Some ''abc-xyz'', sleepMs = 0\<rparr>)
   \<and> startQueryResume
     \<lparr>query = ''select 1'', batchProcessor = (\<lambda>earlier rows. None),
      QueryExecutionId = Some ''abc-xyz'', sleepMs = 0\<rparr>
     (Inr \<lparr>StartQueryExecutionCommandOutput.QueryExecutionId = None\<rparr>)
   = (Inl (ExpectedQueryExecutionIdAfterStart
             \<lparr>StartQueryExecutionCommandOutput.QueryExecutionId = None\<rparr>),
      \<lparr>query = ''select 1'', batchProcessor = (\<lambda>earlier rows. None),
       QueryExecutionId = None, sleepMs = 0\<rparr>)
   \<and> processQueryResume
     \<lparr>query = ''select 1'', batchProcessor = (\<lambda>earlier rows. None),
      QueryExecutionId = None, sleepMs = 0\<rparr>
     (Inr ())
     \<lparr>expectedStartQueries = [],
      expectedWaitForSuccessfulResults = [], expectedGetResults = [],
      trace = [Sent (StartQueryExecutionCommand ''select 1''),
               Sent (StartQueryExecutionCommand ''select 1'')]\<rparr>
   = (Inl ExpectedQueryExecutionId,
      \<lparr>query = ''select 1'', batchProcessor = (\<lambda>earlier rows. None),
       QueryExecutionId = None, sleepMs = 0\<rparr>,
      \<lparr>expectedStartQueries = [],
       expectedWaitForSuccessfulResults = [], expectedGetResults = [],
       trace = [Sent (StartQueryExecutionCommand ''select 1''),
                Sent (StartQueryExecutionCommand ''select 1'')]\<rparr>)
   \<and> processQueryCall
     \<lparr>query = ''select 1'', batchProcessor = (\<lambda>earlier rows. None),
      QueryExecutionId = None, sleepMs = 0\<rparr>
     \<lparr>expectedStartQueries = [],
      expectedWaitForSuccessfulResults = [], expectedGetResults = [],
      trace = [Sent (StartQueryExecutionCommand ''select 1''),
               Sent (StartQueryExecutionCommand ''select 1'')]\<rparr>
   = (Inr (Inl (ExpectedMore ''expectedStartQueries'')),
      \<lparr>expectedStartQueries = [],
       expectedWaitForSuccessfulResults = [], expectedGetResults = [],
       trace = [Sent (StartQueryExecutionCommand ''select 1''),
                Sent (StartQueryExecutionCommand ''select 1''),
                Sent (StartQueryExecutionCommand ''select 1'')]\<rparr>)"
  by (simp add: processQuery_def startQuery_def sendStartQueryExecution_def
        processQueryCall_def startQueryResume_def processQueryResume_def
        waitForSuccessfulResult_def sendGetQueryExecution_def whileNotTerminal.simps
        getState_def isTerminalState_def getResultsInBatches_def getResults_def
        sendGetQueryResults_def responseRows_def headerFieldNames_def headerData_def
        rowsToData_def callBatchProcessor_def whileNextToken.simps)

section \<open>Pagination\<close>

lemma batchesOf_pages:
  "length bs \<le> length toks \<Longrightarrow>
   batchesOf (concat (map (\<lambda>(tok, b). [Sent (GetQueryResultsCommand eid tok), Batch b])
                          (zip toks bs))) = bs"
proof (induction bs arbitrary: toks)
  case Nil
  then show ?case by simp
next
  case (Cons b bs)
  then obtain tok toks' where "toks = tok # toks'"
    by (cases toks) auto
  with Cons show ?case by simp
qed

text \<open>
  The first page and the pages after it, as long as each is fetched with status 200,
  converts under the first page's field names, is accepted by the batch processor and
  (but for the last of them) carries a token: the run reaches the loop test after them.
\<close>

lemma getResultsInBatches_pages:
  assumes "expectedGetResults w = p1 # ps @ rest"
    and "httpStatusCode p1 = Some 200"
    and "rowsToData (map_option (drop 1) (responseRows p1))
           (headerFieldNames (responseRows p1)) = Inr b1"
    and "list_all2 (\<lambda>p b. httpStatusCode p = Some 200 \<and>
            rowsToData (responseRows p) (headerFieldNames (responseRows p1)) = Inr b) ps bs"
    and "\<forall>p\<in>set (butlast (p1 # ps)). GetQueryResultsCommandOutput.NextToken p \<noteq> None"
    and "\<forall>i<length (b1 # bs).
           batchProcessor this (batchesOf (trace w) @ take i (b1 # bs)) ((b1 # bs) ! i) = None"
  shows "getResultsInBatches this w =
           whileNextToken this (headerFieldNames (responseRows p1))
             (GetQueryResultsCommandOutput.NextToken (last (p1 # ps)))
             (w\<lparr>expectedGetResults := rest,
                trace := trace w @
                  concat (map (\<lambda>(tok, b).
                      [Sent (GetQueryResultsCommand (AthenaQuery.QueryExecutionId this) tok), Batch b])
                    (zip (None # map GetQueryResultsCommandOutput.NextToken (p1 # ps))
                         (b1 # bs)))\<rparr>)"
proof -
  let ?fns = "headerFieldNames (responseRows p1)"
  let ?t1 = "GetQueryResultsCommandOutput.NextToken p1"
  let ?w1 = "w\<lparr>expectedGetResults := ps @ rest,
               trace := trace w @
                 [Sent (GetQueryResultsCommand (AthenaQuery.QueryExecutionId this) None),
                  Batch b1]\<rparr>"
  have q: "expectedGetResults w = p1 # (ps @ rest)"
    using assms(1) by simp
  have acc: "batchProcessor this (batchesOf (trace w)) b1 = None"
    using assms(6) [rule_format, of 0] by simp
  have first: "getResultsInBatches this w = whileNextToken this ?fns ?t1 ?w1"
    using getResultsInBatches_first [OF q assms(2,3), of this] acc by simp
  have toks: "\<forall>tok\<in>set (butlast (?t1 # map GetQueryResultsCommandOutput.NextToken ps)). tok \<noteq> None"
    using assms(5) by (auto simp: map_butlast [symmetric] split: if_splits)
  have cons: "\<forall>i<length bs. batchProcessor this (batchesOf (trace ?w1) @ take i bs) (bs ! i) = None"
  proof (intro allI impI)
    fix i assume "i < length bs"
    then have "batchProcessor this (batchesOf (trace w) @ take (Suc i) (b1 # bs)) ((b1 # bs) ! Suc i) = None"
      using assms(6) [rule_format, of "Suc i"] by simp
    then show "batchProcessor this (batchesOf (trace ?w1) @ take i bs) (bs ! i) = None"
      by (simp add: batchesOf_append)
  qed
  have q1: "expectedGetResults ?w1 = ps @ rest"
    by simp
  have last: "last (?t1 # map GetQueryResultsCommandOutput.NextToken ps) =
      GetQueryResultsCommandOutput.NextToken (last (p1 # ps))"
    by (simp add: last_map)
  show ?thesis
    unfolding first
    by (subst whileNextToken_pages [OF assms(4) toks cons q1]) (simp add: last del: last.simps)
qed

text \<open>
  With pairwise distinct field names, none of them empty or \<^verbatim>\<open>__proto__\<close>, a row that
  converts gives the field names paired with its values, in order.
\<close>

lemma rowToJsonValue_zip:
  assumes "distinct names"
    and "\<forall>name\<in>set names. name \<noteq> [] \<and> name \<noteq> ''__proto__''"
    and "rowToJsonValue names row = Inr r"
  shows "r = zip names (map VarCharValue (case Row.Data row of None \<Rightarrow> [] | Some ds \<Rightarrow> ds))"
proof (cases "Row.Data row")
  case None
  then show ?thesis using assms(3) by (simp add: rowToJsonValue_def)
next
  case (Some ds)
  have "rowToJsonValue names row \<noteq> Inl HeaderRowNotLongEnough"
    using assms(3) by simp
  then have fits: "\<forall>i<length ds. i < length names"
    using Some by (auto simp: rowToJsonValue_Inl_iff not_le)
  then have len: "length ds \<le> length names"
    by (metis le_less_linear less_irrefl)
  have "\<forall>i<length ds. 0 + i < length names \<and> names ! (0 + i) \<noteq> [] \<and> names ! (0 + i) \<noteq> ''__proto__''"
    using fits assms(2) by simp
  from forEachData_updates [OF this, of "[]"]
  have "r = AList.updates (take (length ds) names) (map VarCharValue ds) []"
    using assms(3) Some by (simp add: rowToJsonValue_def)
  also have "\<dots> = [] @ zip (take (length ds) names) (map VarCharValue ds)"
    using assms(1) len by (intro updates_fresh) simp_all
  also have "\<dots> = zip names (map VarCharValue ds)"
    using zip_take_values [of "map VarCharValue ds" names] by simp
  finally show ?thesis using Some by simp
qed

lemma fromRowsToJsonValues_zip:
  assumes "distinct names"
    and "\<forall>name\<in>set names. name \<noteq> [] \<and> name \<noteq> ''__proto__''"
  shows "fromRowsToJsonValues rows names = Inr b \<Longrightarrow>
         b = map (\<lambda>row. zip names
                    (map VarCharValue (case Row.Data row of None \<Rightarrow> [] | Some ds \<Rightarrow> ds))) rows"
proof (induction rows arbitrary: b)
  case Nil
  then show ?case by simp
next
  case (Cons row rows)
  then obtain r b' where r: "rowToJsonValue names row = Inr r"
    and b': "fromRowsToJsonValues rows names = Inr b'" and b: "b = r # b'"
    by (auto split: sum.splits)
  show ?case
    using rowToJsonValue_zip [OF assms r] Cons.IH [OF b'] b by simp
qed

text \<open>
  C5 (amended). Let the client's results outputs begin with the pages \<open>p1 # ps\<close>, each
  with status 200, each but the last carrying a continuation token and the last carrying
  none. Let \<open>names\<close> be the field names of \<open>p1\<close>'s row 0 (the text of each cell, or \<^verbatim>\<open>col\<close>
  and the cell's index); let the rows of \<open>p1\<close> after row 0 convert under \<open>names\<close> to the
  batch \<open>b1\<close>, and all the rows of each later page convert under the same \<open>names\<close> to the
  batches \<open>bs\<close>; and let the batch processor resolve on each of these batches. Then
  \<^verbatim>\<open>getResultsInBatches\<close> returns normally. Its history is, page by page and in page order,
  the fetch of the page (with the runner's execution id and the token of the page
  before, none for \<open>p1\<close>) followed by the delivery of the page's batch, so the next fetch
  comes after the delivery; the batches delivered are exactly \<open>b1 # bs\<close>, one per page;
  and the outputs after the last page stay unread. When the field names are pairwise
  distinct, and none is empty or \<^verbatim>\<open>__proto__\<close>, these batches are, page by page and row by
  row, the field names paired with the values of the row.
\<close>

theorem getResultsInBatches_all_pages:
  assumes "expectedGetResults w = p1 # ps @ rest"
    and "\<forall>p\<in>set (p1 # ps). httpStatusCode p = Some 200"
    and "\<forall>p\<in>set (butlast (p1 # ps)). GetQueryResultsCommandOutput.NextToken p \<noteq> None"
    and "GetQueryResultsCommandOutput.NextToken (last (p1 # ps)) = None"
    and "rows1 = (case ResultSet p1 of
                    None \<Rightarrow> []
                  | Some rs \<Rightarrow> (case Rows rs of None \<Rightarrow> [] | Some rws \<Rightarrow> rws))"
    and "cells = (case rows1 of
                    [] \<Rightarrow> []
                  | row0 # dataRows \<Rightarrow> (case Row.Data row0 of None \<Rightarrow> [] | Some ds \<Rightarrow> ds))"
    and "names = map (\<lambda>i. case VarCharValue (cells ! i) of
                             None \<Rightarrow> ''col'' @ numberToString i
                           | Some name \<Rightarrow> name) [0..<length cells]"
    and "fromRowsToJsonValues (drop 1 rows1) names = Inr b1"
    and "list_all2
           (\<lambda>p b. fromRowsToJsonValues
                     (case ResultSet p of
                        None \<Rightarrow> []
                      | Some rs \<Rightarrow> (case Rows rs of None \<Rightarrow> [] | Some rws \<Rightarrow> rws))
                     names = Inr b)
           ps bs"
    and "\<forall>i<length (b1 # bs).
           batchProcessor this (batchesOf (trace w) @ take i (b1 # bs)) ((b1 # bs) ! i) = None"
    and "w' = w\<lparr>expectedGetResults := rest,
               trace := trace w @
                 concat (map (\<lambda>(tok, b).
                     [Sent (GetQueryResultsCommand (AthenaQuery.QueryExecutionId this) tok), Batch b])
                   (zip (None # map GetQueryResultsCommandOutput.NextToken (p1 # ps))
                        (b1 # bs)))\<rparr>"
  shows "getResultsInBatches this w = (Inr (), w')
         \<and> batchesOf (trace w') = batchesOf (trace w) @ b1 # bs
         \<and> (distinct names \<and> (\<forall>name\<in>set names. name \<noteq> [] \<and> name \<noteq> ''__proto__'') \<longrightarrow>
              b1 # bs =
                map (map (\<lambda>row. zip names
                            (map VarCharValue
                               (case Row.Data row of None \<Rightarrow> [] | Some ds \<Rightarrow> ds))))
                  (drop 1 rows1 #
                   map (\<lambda>p. case ResultSet p of
                               None \<Rightarrow> []
                             | Some rs \<Rightarrow> (case Rows rs of None \<Rightarrow> [] | Some rws \<Rightarrow> rws)) ps))"
proof -
  have p1: "httpStatusCode p1 = Some 200"
    using assms(2) by simp
  have cells: "(case headerData (responseRows p1) of None \<Rightarrow> [] | Some ds \<Rightarrow> ds) = cells"
    unfolding assms(5,6) by (rule headerData_raw)
  have names: "headerFieldNames (responseRows p1) = names"
    unfolding assms(7) cells [symmetric] by (rule headerFieldNames_cells)
  have "rowsToData (map_option (drop 1) (responseRows p1)) names =
      fromRowsToJsonValues (drop 1 rows1) names"
    unfolding assms(5) responseRows_raw [symmetric] by (rule rowsToData_drop)
  then have conv1: "rowsToData (map_option (drop 1) (responseRows p1))
      (headerFieldNames (responseRows p1)) = Inr b1"
    using assms(8) by (simp only: names)
  have conv: "rowsToData (responseRows p) names =
      fromRowsToJsonValues
        (case ResultSet p of
           None \<Rightarrow> []
         | Some rs \<Rightarrow> (case Rows rs of None \<Rightarrow> [] | Some rws \<Rightarrow> rws))
        names" for p
    unfolding responseRows_raw [symmetric] by (rule rowsToData_rows)
  have later: "list_all2 (\<lambda>p b. httpStatusCode p = Some 200 \<and>
      rowsToData (responseRows p) (headerFieldNames (responseRows p1)) = Inr b) ps bs"
    using assms(2,9) unfolding names conv by (auto simp: list_all2_conv_all_nth)
  have run: "getResultsInBatches this w = (Inr (), w')"
    unfolding getResultsInBatches_pages [OF assms(1) p1 conv1 later assms(3,10)] assms(4,11)
    by (rule whileNextToken_done)
  have "length (b1 # bs) \<le> length (None # map GetQueryResultsCommandOutput.NextToken (p1 # ps))"
    using assms(9) by (simp add: list_all2_lengthD)
  from batchesOf_pages [OF this]
  have delivered: "batchesOf (trace w') = batchesOf (trace w) @ b1 # bs"
    unfolding assms(11) by (simp add: batchesOf_append del: zip_Cons_Cons)
  have records: "b1 # bs =
      map (map (\<lambda>row. zip names
                  (map VarCharValue (case Row.Data row of None \<Rightarrow> [] | Some ds \<Rightarrow> ds))))
        (drop 1 rows1 #
         map (\<lambda>p. case ResultSet p of
                     None \<Rightarrow> []
                   | Some rs \<Rightarrow> (case Rows rs of None \<Rightarrow> [] | Some rws \<Rightarrow> rws)) ps)"
    if regular: "distinct names \<and> (\<forall>name\<in>set names. name \<noteq> [] \<and> name \<noteq> ''__proto__'')"
  proof -
    note zip = fromRowsToJsonValues_zip [OF conjunct1 [OF regular] conjunct2 [OF regular]]
    have "b1 = map (\<lambda>row. zip names
                  (map VarCharValue (case Row.Data row of None \<Rightarrow> [] | Some ds \<Rightarrow> ds)))
               (drop 1 rows1)"
      using assms(8) by (rule zip)
    moreover have "bs = map (\<lambda>p. map (\<lambda>row. zip names
                  (map VarCharValue (case Row.Data row of None \<Rightarrow> [] | Some ds \<Rightarrow> ds)))
               (case ResultSet p of
                     None \<Rightarrow> []
                   | Some rs \<Rightarrow> (case Rows rs of None \<Rightarrow> [] | Some rws \<Rightarrow> rws))) ps"
    proof (rule nth_equalityI)
      show "length bs = length (map (\<lambda>p. map (\<lambda>row. zip names
                  (map VarCharValue (case Row.Data row of None \<Rightarrow> [] | Some ds \<Rightarrow> ds)))
               (case ResultSet p of
                     None \<Rightarrow> []
                   | Some rs \<Rightarrow> (case Rows rs of None \<Rightarrow> [] | Some rws \<Rightarrow> rws))) ps)"
        using assms(9) by (simp add: list_all2_lengthD)
    next
      fix i assume "i < length bs"
      then have i: "i < length ps"
        using assms(9) by (simp add: list_all2_lengthD)
      then have "fromRowsToJsonValues
                     (case ResultSet (ps ! i) of
                        None \<Rightarrow> []
                      | Some rs \<Rightarrow> (case Rows rs of None \<Rightarrow> [] | Some rws \<Rightarrow> rws))
                     names = Inr (bs ! i)"
        using assms(9) by (simp add: list_all2_conv_all_nth)
      from zip [OF this] i
      show "bs ! i = map (\<lambda>p. map (\<lambda>row. zip names
                  (map VarCharValue (case Row.Data row of None \<Rightarrow> [] | Some ds \<Rightarrow> ds)))
               (case ResultSet p of
                     None \<Rightarrow> []
                   | Some rs \<Rightarrow> (case Rows rs of None \<Rightarrow> [] | Some rws \<Rightarrow> rws))) ps ! i"
        by simp
    qed
    ultimately show ?thesis by simp
  qed
  from run delivered records show ?thesis by blast
qed

text \<open>
  An instance: the three pages of the repository's test \<^verbatim>\<open>multiple calls\<close>, linked by
  the tokens \<^verbatim>\<open>NextResult1\<close> and \<^verbatim>\<open>NextResult2\<close>.
\<close>

theorem getResultsInBatches_all_pages_witness:
  "getResultsInBatches
     \<lparr>query = ''select * FROM my_db.my_table'', batchProcessor = (\<lambda>earlier rows. None),
      QueryExecutionId = Some ''abc-xyz'', sleepMs = 1\<rparr>
     \<lparr>expectedStartQueries = [], expectedWaitForSuccessfulResults = [],
      expectedGetResults =
        [\<lparr>httpStatusCode = Some 200,
          ResultSet = Some \<lparr>Rows = Some
            [\<lparr>Row.Data = Some [\<lparr>VarCharValue = Some ''first_name''\<rparr>, \<lparr>VarCharValue = Some ''last_name''\<rparr>]\<rparr>,
             \<lparr>Row.Data = Some [\<lparr>VarCharValue = Some ''John''\<rparr>, \<lparr>VarCharValue = Some ''Smith''\<rparr>]\<rparr>]\<rparr>,
          GetQueryResultsCommandOutput.NextToken = Some ''NextResult1''\<rparr>,
         \<lparr>httpStatusCode = Some 200,
          ResultSet = Some \<lparr>Rows = Some
            [\<lparr>Row.Data = Some [\<lparr>VarCharValue = Some ''Maria''\<rparr>, \<lparr>VarCharValue = Some ''Rodriguez''\<rparr>]\<rparr>,
             \<lparr>Row.Data = Some [\<lparr>VarCharValue = Some ''Mary''\<rparr>, \<lparr>VarCharValue = Some ''Johnson''\<rparr>]\<rparr>]\<rparr>,
          GetQueryResultsCommandOutput.NextToken = Some ''NextResult2''\<rparr>,
         \<lparr>httpStatusCode = Some 200,
          ResultSet = Some \<lparr>Rows = Some
            [\<lparr>Row.Data = Some [\<lparr>VarCharValue = Some ''Joseph''\<rparr>, \<lparr>VarCharValue = Some ''Jones''\<rparr>]\<rparr>]\<rparr>,
          GetQueryResultsCommandOutput.NextToken = None\<rparr>],
      trace = []\<rparr>
   = (Inr (),
      \<lparr>expectedStartQueries = [], expectedWaitForSuccessfulResults = [],
       expectedGetResults = [],
       trace =
         [Sent (GetQueryResultsCommand (Some ''abc-xyz'') None),
          Batch [[(''first_name'', Some ''John''), (''last_name'', Some ''Smith'')]],
          Sent (GetQueryResultsCommand (Some ''abc-xyz'') (Some ''NextResult1'')),
          Batch [[(''first_name'', Some ''Maria''), (''last_name'', Some ''Rodriguez'')],
                 [(''first_name'', Some ''Mary''), (''last_name'', Some ''Johnson'')]],
          Sent (GetQueryResultsCommand (Some ''abc-xyz'') (Some ''NextResult2'')),
          Batch [[(''first_name'', Some ''Joseph''), (''last_name'', Some ''Jones'')]]]\<rparr>)"
proof -
  let ?runner = "\<lparr>query = ''select * FROM my_db.my_table'',
                  batchProcessor = (\<lambda>earlier rows. None),
                  QueryExecutionId = Some ''abc-xyz'', sleepMs = 1\<rparr> :: AthenaQuery"
  let ?header = "[\<lparr>VarCharValue = Some ''first_name''\<rparr>, \<lparr>VarCharValue = Some ''last_name''\<rparr>]"
  let ?rows1 = "[\<lparr>Row.Data = Some ?header\<rparr>,
                 \<lparr>Row.Data = Some [\<lparr>VarCharValue = Some ''John''\<rparr>, \<lparr>VarCharValue = Some ''Smith''\<rparr>]\<rparr>]"
  let ?p1 = "\<lparr>httpStatusCode = Some 200,
          ResultSet = Some \<lparr>Rows = Some ?rows1\<rparr>,
          GetQueryResultsCommandOutput.NextToken = Some ''NextResult1''\<rparr>"
  let ?p2 = "\<lparr>httpStatusCode = Some 200,
          ResultSet = Some \<lparr>Rows = Some
            [\<lparr>Row.Data = Some [\<lparr>VarCharValue = Some ''Maria''\<rparr>, \<lparr>VarCharValue = Some ''Rodriguez''\<rparr>]\<rparr>,
             \<lparr>Row.Data = Some [\<lparr>VarCharValue = Some ''Mary''\<rparr>, \<lparr>VarCharValue = Some ''Johnson''\<rparr>]\<rparr>]\<rparr>,
          GetQueryResultsCommandOutput.NextToken = Some ''NextResult2''\<rparr>"
  let ?p3 = "\<lparr>httpStatusCode = Some 200,
          ResultSet = Some \<lparr>Rows = Some
            [\<lparr>Row.Data = Some [\<lparr>VarCharValue = Some ''Joseph''\<rparr>, \<lparr>VarCharValue = Some ''Jones''\<rparr>]\<rparr>]\<rparr>,
          GetQueryResultsCommandOutput.NextToken = None\<rparr>"
  let ?names = "[''first_name'', ''last_name'']"
  let ?b1 = "[[(''first_name'', Some ''John''), (''last_name'', Some ''Smith'')]]"
  let ?b2 = "[[(''first_name'', Some ''Maria''), (''last_name'', Some ''Rodriguez'')],
              [(''first_name'', Some ''Mary''), (''last_name'', Some ''Johnson'')]]"
  let ?b3 = "[[(''first_name'', Some ''Joseph''), (''last_name'', Some ''Jones'')]]"
  let ?w = "\<lparr>expectedStartQueries = [], expectedWaitForSuccessfulResults = [],
             expectedGetResults = [?p1, ?p2, ?p3], trace = []\<rparr>"
  let ?w' = "\<lparr>expectedStartQueries = [], expectedWaitForSuccessfulResults = [],
       expectedGetResults = [],
       trace =
         [Sent (GetQueryResultsCommand (Some ''abc-xyz'') None), Batch ?b1,
          Sent (GetQueryResultsCommand (Some ''abc-xyz'') (Some ''NextResult1'')), Batch ?b2,
          Sent (GetQueryResultsCommand (Some ''abc-xyz'') (Some ''NextResult2'')), Batch ?b3]\<rparr>"
  have 1: "expectedGetResults ?w = ?p1 # [?p2, ?p3] @ []"
    by simp
  have 2: "\<forall>p\<in>set (?p1 # [?p2, ?p3]). httpStatusCode p = Some 200"
    by simp
  have 3: "\<forall>p\<in>set (butlast (?p1 # [?p2, ?p3])). GetQueryResultsCommandOutput.NextToken p \<noteq> None"
    by simp
  have 4: "GetQueryResultsCommandOutput.NextToken (last (?p1 # [?p2, ?p3])) = None"
    by simp
  have 5: "?rows1 = (case ResultSet ?p1 of
                       None \<Rightarrow> []
                     | Some rs \<Rightarrow> (case Rows rs of None \<Rightarrow> [] | Some rws \<Rightarrow> rws))"
    by simp
  have 6: "?header = (case ?rows1 of
                        [] \<Rightarrow> []
                      | row0 # dataRows \<Rightarrow>
                          (case Row.Data row0 of None \<Rightarrow> [] | Some ds \<Rightarrow> ds))"
    by simp
  have 7: "?names = map (\<lambda>i. case VarCharValue (?header ! i) of
                             None \<Rightarrow> ''col'' @ numberToString i
                           | Some name \<Rightarrow> name) [0..<length ?header]"
    by (simp add: upt_rec)
  have 8: "fromRowsToJsonValues (drop 1 ?rows1) ?names = Inr ?b1"
    by (simp add: rowToJsonValue_def setProperty_def)
  have 9: "list_all2
           (\<lambda>p b. fromRowsToJsonValues
                     (case ResultSet p of
                        None \<Rightarrow> []
                      | Some rs \<Rightarrow> (case Rows rs of None \<Rightarrow> [] | Some rws \<Rightarrow> rws))
                     ?names = Inr b)
           [?p2, ?p3] [?b2, ?b3]"
    by (simp add: rowToJsonValue_def setProperty_def)
  have 10: "\<forall>i<length (?b1 # [?b2, ?b3]).
           batchProcessor ?runner (batchesOf (trace ?w) @ take i (?b1 # [?b2, ?b3]))
             ((?b1 # [?b2, ?b3]) ! i) = None"
    by simp
  have 11: "?w' = ?w\<lparr>expectedGetResults := [],
               trace := trace ?w @
                 concat (map (\<lambda>(tok, b).
                     [Sent (GetQueryResultsCommand (AthenaQuery.QueryExecutionId ?runner) tok), Batch b])
                   (zip (None # map GetQueryResultsCommandOutput.NextToken (?p1 # [?p2, ?p3]))
                        (?b1 # [?b2, ?b3])))\<rparr>"
    by simp
  from getResultsInBatches_all_pages [OF 1 2 3 4 5 6 7 8 9 10 11, THEN conjunct1]
  show ?thesis .
qed

text \<open>
  C5 as first stated speaks of every finite sequence of pages linked by continuation
  tokens. It fails on such a sequence when a page does not convert: two pages with status
  200, the first carrying a token and the second none, where a row of the second page has
  two values against the one field name of the first page's header. The batch processor
  is called once, for the first page; the second page is fetched and the run fails with
  \<^verbatim>\<open>Header row is not long enough.\<close>, so the second page has no batch.
\<close>

theorem getResultsInBatches_long_row_counterexample:
  "getResultsInBatches
     \<lparr>query = ''select 1'', batchProcessor = (\<lambda>earlier rows. None),
      QueryExecutionId = Some ''abc-xyz'', sleepMs = 1\<rparr>
     \<lparr>expectedStartQueries = [], expectedWaitForSuccessfulResults = [],
      expectedGetResults =
        [\<lparr>httpStatusCode = Some 200,
          ResultSet = Some \<lparr>Rows = Some
            [\<lparr>Row.Data = Some [\<lparr>VarCharValue = Some ''n''\<rparr>]\<rparr>,
             \<lparr>Row.Data = Some [\<lparr>VarCharValue = Some ''1''\<rparr>]\<rparr>]\<rparr>,
          GetQueryResultsCommandOutput.NextToken = Some ''NextResult1''\<rparr>,
         \<lparr>httpStatusCode = Some 200,
          ResultSet = Some \<lparr>Rows = Some
            [\<lparr>Row.Data = Some [\<lparr>VarCharValue = Some ''2''\<rparr>, \<lparr>VarCharValue = Some ''3''\<rparr>]\<rparr>]\<rparr>,
          GetQueryResultsCommandOutput.NextToken = None\<rparr>],
      trace = []\<rparr>
   = (Inl HeaderRowNotLongEnough,
      \<lparr>expectedStartQueries = [], expectedWaitForSuccessfulResults = [],
       expectedGetResults = [],
       trace =
         [Sent (GetQueryResultsCommand (Some ''abc-xyz'') None),
          Batch [[(''n'', Some ''1'')]],
          Sent (GetQueryResultsCommand (Some ''abc-xyz'') (Some ''NextResult1''))]\<rparr>)"
  by (simp add: getResultsInBatches_def getResults_def sendGetQueryResults_def
        responseRows_def headerFieldNames_def headerData_def enumerate_eq_zip
        rowsToData_def rowToJsonValue_def setProperty_def callBatchProcessor_def
        whileNextToken.simps)

subsection \<open>Before retrieval no batch is delivered\<close>

lemma startQuery_batches:
  "startQuery this0 w0 = (r, this, w) \<Longrightarrow> batchesOf (trace w) = batchesOf (trace w0)"
  by (auto simp: startQuery_def sendStartQueryExecution_def Let_def batchesOf_Sent
           split: list.splits if_splits)

lemma sendGetQueryExecution_batches:
  "sendGetQueryExecution eid w = (r, w1) \<Longrightarrow> batchesOf (trace w1) = batchesOf (trace w)"
  by (auto simp: sendGetQueryExecution_def Let_def batchesOf_Sent split: list.splits)

lemma sleep_batches: "batchesOf (trace (sleep ms w)) = batchesOf (trace w)"
  by (simp add: sleep_def batchesOf_append)

lemma whileNotTerminal_batches:
  "batchesOf (trace (snd (whileNotTerminal this stateResponse w))) = batchesOf (trace w)"
proof (induction this stateResponse w rule: whileNotTerminal.induct)
  case (1 this stateResponse w)
  show ?case
  proof (cases "isTerminalState (getState stateResponse)")
    case True
    then show ?thesis by (simp add: whileNotTerminal.simps)
  next
    case False
    let ?w0 = "if 0 < sleepMs this then sleep (sleepMs this) w else w"
    obtain r w1 where s: "sendGetQueryExecution (AthenaQuery.QueryExecutionId this) ?w0 = (r, w1)"
      by (cases "sendGetQueryExecution (AthenaQuery.QueryExecutionId this) ?w0")
    have b0: "batchesOf (trace ?w0) = batchesOf (trace w)"
      by (simp add: sleep_batches)
    note b1 = sendGetQueryExecution_batches [OF s]
    show ?thesis
    proof (cases r)
      case (Inl e)
      then show ?thesis
        using False s b0 b1 by (subst whileNotTerminal.simps) auto
    next
      case (Inr stateResponse1)
      from "1.IH" [OF False s [symmetric] Inr]
      have "batchesOf (trace (snd (whileNotTerminal this stateResponse1 w1))) = batchesOf (trace w1)" .
      then show ?thesis
        using False s Inr b0 b1 by (subst whileNotTerminal.simps) auto
    qed
  qed
qed

lemma waitForSuccessfulResult_batches:
  "waitForSuccessfulResult this w1 = (r, w) \<Longrightarrow> batchesOf (trace w) = batchesOf (trace w1)"
proof -
  assume run: "waitForSuccessfulResult this w1 = (r, w)"
  obtain r1 w2 where s: "sendGetQueryExecution (AthenaQuery.QueryExecutionId this) w1 = (r1, w2)"
    by (cases "sendGetQueryExecution (AthenaQuery.QueryExecutionId this) w1")
  note b1 = sendGetQueryExecution_batches [OF s]
  show ?thesis
  proof (cases r1)
    case (Inl e)
    then show ?thesis using run s b1 by (simp add: waitForSuccessfulResult_def)
  next
    case (Inr stateResponse)
    have "batchesOf (trace (snd (whileNotTerminal this stateResponse w2))) = batchesOf (trace w2)"
      by (rule whileNotTerminal_batches)
    then show ?thesis
      using run s Inr b1
      by (cases "whileNotTerminal this stateResponse w2")
         (auto simp: waitForSuccessfulResult_def Let_def split: sum.splits if_splits)
  qed
qed

lemma processQuery_retrieval:
  assumes "AthenaQuery.QueryExecutionId this0 = None"
    and "startQuery this0 w0 = (Inr (), this, w1)"
    and "waitForSuccessfulResult this w1 = (Inr (), w)"
  shows "processQuery this0 w0 =
           (case getResultsInBatches this w of (r, w3) \<Rightarrow> (r, this, w3))"
    and "batchesOf (trace w) = batchesOf (trace w0)"
  using processQuery_stages [OF assms(1,2)] assms(3)
        startQuery_batches [OF assms(2)] waitForSuccessfulResult_batches [OF assms(3)]
  by simp_all

subsection \<open>A page fetch that is not ok\<close>

lemma getResultsInBatches_failed:
  assumes "expectedGetResults w = bad # rest"
    and "httpStatusCode bad \<noteq> Some 200"
  shows "getResultsInBatches this w =
           (Inl (GetQueryResultsFailed bad),
            w\<lparr>expectedGetResults := rest,
              trace := trace w @
                [Sent (GetQueryResultsCommand (AthenaQuery.QueryExecutionId this) None)]\<rparr>)"
  by (simp add: getResultsInBatches_def getResults_failed [OF assms])

lemma whileNextToken_failed:
  assumes "expectedGetResults w = bad # rest"
    and "httpStatusCode bad \<noteq> Some 200"
  shows "whileNextToken this fns (Some t) w =
           (Inl (GetQueryResultsFailed bad),
            w\<lparr>expectedGetResults := rest,
              trace := trace w @
                [Sent (GetQueryResultsCommand (AthenaQuery.QueryExecutionId this) (Some t))]\<rparr>)"
  by (subst whileNextToken.simps) (simp add: getResults_failed [OF assms])

text \<open>
  C8. A results fetch whose output has an HTTP status code other than 200 (or none)
  makes \<^verbatim>\<open>getResults\<close> throw the retrieval error, whether it is the first fetch or a later
  one. In a run that reached retrieval: if this is the first page, the run fails with
  that error and the batch processor has not been called at all; if it comes after pages
  that were fetched, converted and delivered, each carrying a token, the run fails with
  that error right after the fetch, the earlier batches having been delivered.
\<close>

theorem processQuery_retrieval_failed:
  assumes "AthenaQuery.QueryExecutionId this0 = None"
    and "startQuery this0 w0 = (Inr (), this, w1)"
    and "waitForSuccessfulResult this w1 = (Inr (), w)"
    and "httpStatusCode bad \<noteq> Some 200"
  shows "(expectedGetResults v = bad # rest \<longrightarrow>
            getResults eid tok isFirstQuery fns0 v =
              (Inl (GetQueryResultsFailed bad),
               v\<lparr>expectedGetResults := rest,
                 trace := trace v @ [Sent (GetQueryResultsCommand eid tok)]\<rparr>))
         \<and> (expectedGetResults w = bad # rest \<longrightarrow>
              processQuery this0 w0 =
                (Inl (GetQueryResultsFailed bad), this,
                 w\<lparr>expectedGetResults := rest,
                   trace := trace w @
                     [Sent (GetQueryResultsCommand (AthenaQuery.QueryExecutionId this) None)]\<rparr>)
              \<and> batchesOf (trace (snd (snd (processQuery this0 w0)))) = batchesOf (trace w0))
         \<and> (expectedGetResults w = p1 # ps @ bad # rest \<and>
             (\<forall>p\<in>set (p1 # ps). httpStatusCode p = Some 200 \<and>
                                 GetQueryResultsCommandOutput.NextToken p \<noteq> None) \<and>
             rowsToData (map_option (drop 1) (responseRows p1))
               (headerFieldNames (responseRows p1)) = Inr b1 \<and>
             list_all2 (\<lambda>p b. rowsToData (responseRows p)
                                 (headerFieldNames (responseRows p1)) = Inr b) ps bs \<and>
             (\<forall>i<length (b1 # bs).
                batchProcessor this (batchesOf (trace w) @ take i (b1 # bs)) ((b1 # bs) ! i) = None)
             \<longrightarrow>
              processQuery this0 w0 =
                (Inl (GetQueryResultsFailed bad), this,
                 w\<lparr>expectedGetResults := rest,
                   trace := trace w @
                     concat (map (\<lambda>(tok, b).
                         [Sent (GetQueryResultsCommand (AthenaQuery.QueryExecutionId this) tok),
                          Batch b])
                       (zip (None # map GetQueryResultsCommandOutput.NextToken (p1 # ps))
                            (b1 # bs))) @
                     [Sent (GetQueryResultsCommand (AthenaQuery.QueryExecutionId this)
                              (GetQueryResultsCommandOutput.NextToken (last (p1 # ps))))]\<rparr>))"
proof (intro conjI impI)
  assume "expectedGetResults v = bad # rest"
  then show "getResults eid tok isFirstQuery fns0 v =
      (Inl (GetQueryResultsFailed bad),
       v\<lparr>expectedGetResults := rest,
         trace := trace v @ [Sent (GetQueryResultsCommand eid tok)]\<rparr>)"
    using assms(4) by (rule getResults_failed)
next
  assume q: "expectedGetResults w = bad # rest"
  show run: "processQuery this0 w0 =
      (Inl (GetQueryResultsFailed bad), this,
       w\<lparr>expectedGetResults := rest,
         trace := trace w @
           [Sent (GetQueryResultsCommand (AthenaQuery.QueryExecutionId this) None)]\<rparr>)"
    by (simp add: processQuery_retrieval(1) [OF assms(1-3)]
                  getResultsInBatches_failed [OF q assms(4)])
  show "batchesOf (trace (snd (snd (processQuery this0 w0)))) = batchesOf (trace w0)"
    by (simp add: run batchesOf_Sent processQuery_retrieval(2) [OF assms(1-3)])
next
  assume good: "expectedGetResults w = p1 # ps @ bad # rest \<and>
             (\<forall>p\<in>set (p1 # ps). httpStatusCode p = Some 200 \<and>
                                 GetQueryResultsCommandOutput.NextToken p \<noteq> None) \<and>
             rowsToData (map_option (drop 1) (responseRows p1))
               (headerFieldNames (responseRows p1)) = Inr b1 \<and>
             list_all2 (\<lambda>p b. rowsToData (responseRows p)
                                 (headerFieldNames (responseRows p1)) = Inr b) ps bs \<and>
             (\<forall>i<length (b1 # bs).
                batchProcessor this (batchesOf (trace w) @ take i (b1 # bs)) ((b1 # bs) ! i) = None)"
  then have q: "expectedGetResults w = p1 # ps @ (bad # rest)"
    and p1: "httpStatusCode p1 = Some 200"
    and conv1: "rowsToData (map_option (drop 1) (responseRows p1))
               (headerFieldNames (responseRows p1)) = Inr b1"
    and acc: "\<forall>i<length (b1 # bs).
                batchProcessor this (batchesOf (trace w) @ take i (b1 # bs)) ((b1 # bs) ! i) = None"
    by simp_all
  have later: "list_all2 (\<lambda>p b. httpStatusCode p = Some 200 \<and>
      rowsToData (responseRows p) (headerFieldNames (responseRows p1)) = Inr b) ps bs"
    using good by (auto simp: list_all2_conv_all_nth)
  have toks: "\<forall>p\<in>set (butlast (p1 # ps)). GetQueryResultsCommandOutput.NextToken p \<noteq> None"
    using good by (auto dest: in_set_butlastD)
  have "GetQueryResultsCommandOutput.NextToken (last (p1 # ps)) \<noteq> None"
    using good by (metis last_in_set list.discI)
  then obtain t where t: "GetQueryResultsCommandOutput.NextToken (last (p1 # ps)) = Some t"
    by blast
  let ?w' = "w\<lparr>expectedGetResults := bad # rest,
                trace := trace w @
                  concat (map (\<lambda>(tok, b).
                      [Sent (GetQueryResultsCommand (AthenaQuery.QueryExecutionId this) tok), Batch b])
                    (zip (None # map GetQueryResultsCommandOutput.NextToken (p1 # ps))
                         (b1 # bs)))\<rparr>"
  have q': "expectedGetResults ?w' = bad # rest"
    by simp
  have "getResultsInBatches this w =
      (Inl (GetQueryResultsFailed bad),
       ?w'\<lparr>expectedGetResults := rest,
           trace := trace ?w' @
             [Sent (GetQueryResultsCommand (AthenaQuery.QueryExecutionId this) (Some t))]\<rparr>)"
    unfolding getResultsInBatches_pages [OF q p1 conv1 later toks acc] t
    by (rule whileNextToken_failed [OF q' assms(4)])
  then show "processQuery this0 w0 =
      (Inl (GetQueryResultsFailed bad), this,
       w\<lparr>expectedGetResults := rest,
         trace := trace w @
           concat (map (\<lambda>(tok, b).
               [Sent (GetQueryResultsCommand (AthenaQuery.QueryExecutionId this) tok),
                Batch b])
             (zip (None # map GetQueryResultsCommandOutput.NextToken (p1 # ps))
                  (b1 # bs))) @
           [Sent (GetQueryResultsCommand (AthenaQuery.QueryExecutionId this)
                    (GetQueryResultsCommandOutput.NextToken (last (p1 # ps))))]\<rparr>)"
    by (simp add: processQuery_retrieval(1) [OF assms(1-3)] t del: last.simps zip_Cons_Cons)
qed

text \<open>
  Two instances. The repository's test \<^verbatim>\<open>GetResults failed\<close>: the first results output
  has status 500, the run fails and no batch is delivered. And a failure on the second
  page, whose output has no status code: the first page's batch has been delivered, the
  second fetch carries the first page's token, and the run fails.
\<close>

theorem processQuery_retrieval_failed_witness:
  "processQuery
     \<lparr>query = ''select 1'', batchProcessor = (\<lambda>earlier rows. None),
      QueryExecutionId = None, sleepMs = 1\<rparr>
     \<lparr>expectedStartQueries =
        [\<lparr>StartQueryExecutionCommandOutput.QueryExecutionId = Some ''abc-xyz''\<rparr>],
      expectedWaitForSuccessfulResults =
        [\<lparr>QueryExecution = Some \<lparr>Status = Some \<lparr>State = Some ''SUCCEEDED''\<rparr>\<rparr>\<rparr>],
      expectedGetResults =
        [\<lparr>httpStatusCode = Some 500, ResultSet = None,
          GetQueryResultsCommandOutput.NextToken = None\<rparr>],
      trace = []\<rparr>
   = (Inl (GetQueryResultsFailed
             \<lparr>httpStatusCode = Some 500, ResultSet = None,
              GetQueryResultsCommandOutput.NextToken = None\<rparr>),
      \<lparr>query = ''select 1'', batchProcessor = (\<lambda>earlier rows. None),
       QueryExecutionId = Some ''abc-xyz'', sleepMs = 1\<rparr>,
      \<lparr>expectedStartQueries = [], expectedWaitForSuccessfulResults = [],
       expectedGetResults = [],
       trace = [Sent (StartQueryExecutionCommand ''select 1''),
                Sent (GetQueryExecutionCommand (Some ''abc-xyz'')),
                Sent (GetQueryResultsCommand (Some ''abc-xyz'') None)]\<rparr>)
   \<and> processQuery
     \<lparr>query = ''select 1'', batchProcessor = (\<lambda>earlier rows. None),
      QueryExecutionId = None, sleepMs = 1\<rparr>
     \<lparr>expectedStartQueries =
        [\<lparr>StartQueryExecutionCommandOutput.QueryExecutionId = Some ''abc-xyz''\<rparr>],
      expectedWaitForSuccessfulResults =
        [\<lparr>QueryExecution = Some \<lparr>Status = Some \<lparr>State = Some ''SUCCEEDED''\<rparr>\<rparr>\<rparr>],
      expectedGetResults =
        [\<lparr>httpStatusCode = Some 200,
          ResultSet = Some \<lparr>Rows = Some
            [\<lparr>Row.Data = Some [\<lparr>VarCharValue = Some ''n''\<rparr>]\<rparr>,
             \<lparr>Row.Data = Some [\<lparr>VarCharValue = Some ''1''\<rparr>]\<rparr>]\<rparr>,
          GetQueryResultsCommandOutput.NextToken = Some ''NextResult1''\<rparr>,
         \<lparr>httpStatusCode = None, ResultSet = None,
          GetQueryResultsCommandOutput.NextToken = None\<rparr>],
      trace = []\<rparr>
   = (Inl (GetQueryResultsFailed
             \<lparr>httpStatusCode = None, ResultSet = None,
              GetQueryResultsCommandOutput.NextToken = None\<rparr>),
      \<lparr>query = ''select 1'', batchProcessor = (\<lambda>earlier rows. None),
       QueryExecutionId = Some ''abc-xyz'', sleepMs = 1\<rparr>,
      \<lparr>expectedStartQueries = [], expectedWaitForSuccessfulResults = [],
       expectedGetResults = [],
       trace = [Sent (StartQueryExecutionCommand ''select 1''),
                Sent (GetQueryExecutionCommand (Some ''abc-xyz'')),
                Sent (GetQueryResultsCommand (Some ''abc-xyz'') None),
                Batch [[(''n'', Some ''1'')]],
                Sent (GetQueryResultsCommand (Some ''abc-xyz'') (Some ''NextResult1''))]\<rparr>)"
proof
  let ?fresh = "\<lparr>query = ''select 1'', batchProcessor = (\<lambda>earlier rows. None),
                 QueryExecutionId = None, sleepMs = 1\<rparr> :: AthenaQuery"
  let ?runner = "\<lparr>query = ''select 1'', batchProcessor = (\<lambda>earlier rows. None),
                  QueryExecutionId = Some ''abc-xyz'', sleepMs = 1\<rparr> :: AthenaQuery"
  let ?started = "\<lparr>StartQueryExecutionCommandOutput.QueryExecutionId = Some ''abc-xyz''\<rparr>"
  let ?succeeded = "\<lparr>QueryExecution = Some \<lparr>Status = Some \<lparr>State = Some ''SUCCEEDED''\<rparr>\<rparr>\<rparr>"
  let ?bad = "\<lparr>httpStatusCode = Some 500, ResultSet = None,
               GetQueryResultsCommandOutput.NextToken = None\<rparr>"
  let ?begin = "\<lparr>expectedStartQueries = [?started],
                 expectedWaitForSuccessfulResults = [?succeeded],
                 expectedGetResults = [?bad], trace = []\<rparr>"
  let ?w1 = "\<lparr>expectedStartQueries = [],
              expectedWaitForSuccessfulResults = [?succeeded],
              expectedGetResults = [?bad],
              trace = [Sent (StartQueryExecutionCommand ''select 1'')]\<rparr>"
  let ?w = "\<lparr>expectedStartQueries = [], expectedWaitForSuccessfulResults = [],
             expectedGetResults = [?bad],
             trace = [Sent (StartQueryExecutionCommand ''select 1''),
                      Sent (GetQueryExecutionCommand (Some ''abc-xyz''))]\<rparr>"
  have 1: "AthenaQuery.QueryExecutionId ?fresh = None"
    by simp
  have 2: "startQuery ?fresh ?begin = (Inr (), ?runner, ?w1)"
    by (simp add: startQuery_def sendStartQueryExecution_def)
  have 3: "waitForSuccessfulResult ?runner ?w1 = (Inr (), ?w)"
    by (simp add: waitForSuccessfulResult_def sendGetQueryExecution_def whileNotTerminal.simps
          getState_def isTerminalState_def)
  have 4: "httpStatusCode ?bad \<noteq> Some 200"
    by simp
  have 5: "expectedGetResults ?w = ?bad # []"
    by simp
  from processQuery_retrieval_failed
         [OF 1 2 3 4, THEN conjunct2, THEN conjunct1, rule_format, OF 5, THEN conjunct1]
  show "processQuery ?fresh ?begin =
      (Inl (GetQueryResultsFailed ?bad), ?runner,
       \<lparr>expectedStartQueries = [], expectedWaitForSuccessfulResults = [],
        expectedGetResults = [],
        trace = [Sent (StartQueryExecutionCommand ''select 1''),
                 Sent (GetQueryExecutionCommand (Some ''abc-xyz'')),
                 Sent (GetQueryResultsCommand (Some ''abc-xyz'') None)]\<rparr>)"
    by simp
next
  let ?fresh = "\<lparr>query = ''select 1'', batchProcessor = (\<lambda>earlier rows. None),
                 QueryExecutionId = None, sleepMs = 1\<rparr> :: AthenaQuery"
  let ?runner = "\<lparr>query = ''select 1'', batchProcessor = (\<lambda>earlier rows. None),
                  QueryExecutionId = Some ''abc-xyz'', sleepMs = 1\<rparr> :: AthenaQuery"
  let ?started = "\<lparr>StartQueryExecutionCommandOutput.QueryExecutionId = Some ''abc-xyz''\<rparr>"
  let ?succeeded = "\<lparr>QueryExecution = Some \<lparr>Status = Some \<lparr>State = Some ''SUCCEEDED''\<rparr>\<rparr>\<rparr>"
  let ?p1 = "\<lparr>httpStatusCode = Some 200,
          ResultSet = Some \<lparr>Rows = Some
            [\<lparr>Row.Data = Some [\<lparr>VarCharValue = Some ''n''\<rparr>]\<rparr>,
             \<lparr>Row.Data = Some [\<lparr>VarCharValue = Some ''1''\<rparr>]\<rparr>]\<rparr>,
          GetQueryResultsCommandOutput.NextToken = Some ''NextResult1''\<rparr>"
  let ?bad = "\<lparr>httpStatusCode = None, ResultSet = None,
               GetQueryResultsCommandOutput.NextToken = None\<rparr>"
  let ?b1 = "[[(''n'', Some ''1'')]]"
  let ?begin = "\<lparr>expectedStartQueries = [?started],
                 expectedWaitForSuccessfulResults = [?succeeded],
                 expectedGetResults = [?p1, ?bad], trace = []\<rparr>"
  let ?w1 = "\<lparr>expectedStartQueries = [],
              expectedWaitForSuccessfulResults = [?succeeded],
              expectedGetResults = [?p1, ?bad],
              trace = [Sent (StartQueryExecutionCommand ''select 1'')]\<rparr>"
  let ?w = "\<lparr>expectedStartQueries = [], expectedWaitForSuccessfulResults = [],
             expectedGetResults = [?p1, ?bad],
             trace = [Sent (StartQueryExecutionCommand ''select 1''),
                      Sent (GetQueryExecutionCommand (Some ''abc-xyz''))]\<rparr>"
  have names: "headerFieldNames (responseRows ?p1) = [''n'']"
    by (simp add: headerFieldNames_def headerData_def responseRows_def enumerate_eq_zip)
  have 1: "AthenaQuery.QueryExecutionId ?fresh = None"
    by simp
  have 2: "startQuery ?fresh ?begin = (Inr (), ?runner, ?w1)"
    by (simp add: startQuery_def sendStartQueryExecution_def)
  have 3: "waitForSuccessfulResult ?runner ?w1 = (Inr (), ?w)"
    by (simp add: waitForSuccessfulResult_def sendGetQueryExecution_def whileNotTerminal.simps
          getState_def isTerminalState_def)
  have 4: "httpStatusCode ?bad \<noteq> Some 200"
    by simp
  have 5: "expectedGetResults ?w = ?p1 # [] @ ?bad # []"
    by simp
  have 6: "\<forall>p\<in>set (?p1 # []). httpStatusCode p = Some 200 \<and>
             GetQueryResultsCommandOutput.NextToken p \<noteq> None"
    by simp
  have 7: "rowsToData (map_option (drop 1) (responseRows ?p1))
             (headerFieldNames (responseRows ?p1)) = Inr ?b1"
    unfolding names by (simp add: rowsToData_def responseRows_def rowToJsonValue_def setProperty_def)
  have 8: "list_all2 (\<lambda>p b. rowsToData (responseRows p)
             (headerFieldNames (responseRows ?p1)) = Inr b) [] []"
    by simp
  have 9: "\<forall>i<length (?b1 # []).
             batchProcessor ?runner (batchesOf (trace ?w) @ take i (?b1 # [])) ((?b1 # []) ! i) = None"
    by simp
  from processQuery_retrieval_failed
         [OF 1 2 3 4, THEN conjunct2, THEN conjunct2, rule_format,
          OF conjI [OF 5 conjI [OF 6 conjI [OF 7 conjI [OF 8 9]]]]]
  show "processQuery ?fresh ?begin =
      (Inl (GetQueryResultsFailed ?bad), ?runner,
       \<lparr>expectedStartQueries = [], expectedWaitForSuccessfulResults = [],
        expectedGetResults = [],
        trace = [Sent (StartQueryExecutionCommand ''select 1''),
                 Sent (GetQueryExecutionCommand (Some ''abc-xyz'')),
                 Sent (GetQueryResultsCommand (Some ''abc-xyz'') None),
                 Batch ?b1,
                 Sent (GetQueryResultsCommand (Some ''abc-xyz'') (Some ''NextResult1''))]\<rparr>)"
    by simp
qed

subsection \<open>A batch processor that rejects\<close>

text \<open>
  C10. In a run that reached retrieval, let a page be fetched with status 200 and
  convert to the batch \<open>b\<close>, and let the batch processor reject when called with \<open>b\<close>.
  Then the run fails with the processor's rejection; the last events of its history are
  the fetch of this page and the call with \<open>b\<close>, so no page is requested after it, and
  the client's later results outputs stay unread. This holds when the page is the first
  one, and when it comes after pages that were fetched, converted and accepted, each
  carrying a token: their batches stay in the history, delivered.
\<close>

theorem processQuery_batchProcessor_rejects:
  assumes "AthenaQuery.QueryExecutionId this0 = None"
    and "startQuery this0 w0 = (Inr (), this, w1)"
    and "waitForSuccessfulResult this w1 = (Inr (), w)"
    and "httpStatusCode p = Some 200"
  shows "(expectedGetResults w = p # rest \<and>
          rowsToData (map_option (drop 1) (responseRows p))
            (headerFieldNames (responseRows p)) = Inr b \<and>
          batchProcessor this (batchesOf (trace w)) b = Some reason \<longrightarrow>
            processQuery this0 w0 =
              (Inl (BatchProcessorRejected reason), this,
               w\<lparr>expectedGetResults := rest,
                 trace := trace w @
                   [Sent (GetQueryResultsCommand (AthenaQuery.QueryExecutionId this) None),
                    Batch b]\<rparr>))
         \<and> (expectedGetResults w = p1 # ps @ p # rest \<and>
             (\<forall>p\<in>set (p1 # ps). httpStatusCode p = Some 200 \<and>
                                 GetQueryResultsCommandOutput.NextToken p \<noteq> None) \<and>
             rowsToData (map_option (drop 1) (responseRows p1))
               (headerFieldNames (responseRows p1)) = Inr b1 \<and>
             list_all2 (\<lambda>p b. rowsToData (responseRows p)
                                 (headerFieldNames (responseRows p1)) = Inr b) ps bs \<and>
             (\<forall>i<length (b1 # bs).
                batchProcessor this (batchesOf (trace w) @ take i (b1 # bs)) ((b1 # bs) ! i) = None) \<and>
             rowsToData (responseRows p) (headerFieldNames (responseRows p1)) = Inr b \<and>
             batchProcessor this (batchesOf (trace w) @ b1 # bs) b = Some reason
             \<longrightarrow>
              processQuery this0 w0 =
                (Inl (BatchProcessorRejected reason), this,
                 w\<lparr>expectedGetResults := rest,
                   trace := trace w @
                     concat (map (\<lambda>(tok, b).
                         [Sent (GetQueryResultsCommand (AthenaQuery.QueryExecutionId this) tok),
                          Batch b])
                       (zip (None # map GetQueryResultsCommandOutput.NextToken (p1 # ps))
                            (b1 # bs))) @
                     [Sent (GetQueryResultsCommand (AthenaQuery.QueryExecutionId this)
                              (GetQueryResultsCommandOutput.NextToken (last (p1 # ps)))),
                      Batch b]\<rparr>))"
proof (intro conjI impI)
  assume first: "expectedGetResults w = p # rest \<and>
          rowsToData (map_option (drop 1) (responseRows p))
            (headerFieldNames (responseRows p)) = Inr b \<and>
          batchProcessor this (batchesOf (trace w)) b = Some reason"
  then have q: "expectedGetResults w = p # rest"
    and conv: "rowsToData (map_option (drop 1) (responseRows p))
            (headerFieldNames (responseRows p)) = Inr b"
    and rej: "batchProcessor this (batchesOf (trace w)) b = Some reason"
    by simp_all
  show "processQuery this0 w0 =
      (Inl (BatchProcessorRejected reason), this,
       w\<lparr>expectedGetResults := rest,
         trace := trace w @
           [Sent (GetQueryResultsCommand (AthenaQuery.QueryExecutionId this) None),
            Batch b]\<rparr>)"
    by (simp add: processQuery_retrieval(1) [OF assms(1-3)]
                  getResultsInBatches_first [OF q assms(4) conv] rej)
next
  assume later: "expectedGetResults w = p1 # ps @ p # rest \<and>
             (\<forall>p\<in>set (p1 # ps). httpStatusCode p = Some 200 \<and>
                                 GetQueryResultsCommandOutput.NextToken p \<noteq> None) \<and>
             rowsToData (map_option (drop 1) (responseRows p1))
               (headerFieldNames (responseRows p1)) = Inr b1 \<and>
             list_all2 (\<lambda>p b. rowsToData (responseRows p)
                                 (headerFieldNames (responseRows p1)) = Inr b) ps bs \<and>
             (\<forall>i<length (b1 # bs).
                batchProcessor this (batchesOf (trace w) @ take i (b1 # bs)) ((b1 # bs) ! i) = None) \<and>
             rowsToData (responseRows p) (headerFieldNames (responseRows p1)) = Inr b \<and>
             batchProcessor this (batchesOf (trace w) @ b1 # bs) b = Some reason"
  then have q: "expectedGetResults w = p1 # ps @ (p # rest)"
    and p1: "httpStatusCode p1 = Some 200"
    and conv1: "rowsToData (map_option (drop 1) (responseRows p1))
               (headerFieldNames (responseRows p1)) = Inr b1"
    and acc: "\<forall>i<length (b1 # bs).
                batchProcessor this (batchesOf (trace w) @ take i (b1 # bs)) ((b1 # bs) ! i) = None"
    and conv: "rowsToData (responseRows p) (headerFieldNames (responseRows p1)) = Inr b"
    and rej: "batchProcessor this (batchesOf (trace w) @ b1 # bs) b = Some reason"
    by simp_all
  have len: "length ps = length bs"
    using later by (auto dest: list_all2_lengthD)
  have good: "list_all2 (\<lambda>p b. httpStatusCode p = Some 200 \<and>
      rowsToData (responseRows p) (headerFieldNames (responseRows p1)) = Inr b) ps bs"
    using later by (auto simp: list_all2_conv_all_nth)
  have toks: "\<forall>p\<in>set (butlast (p1 # ps)). GetQueryResultsCommandOutput.NextToken p \<noteq> None"
    using later by (auto dest: in_set_butlastD)
  have "GetQueryResultsCommandOutput.NextToken (last (p1 # ps)) \<noteq> None"
    using later by (metis last_in_set list.discI)
  then obtain t where t: "GetQueryResultsCommandOutput.NextToken (last (p1 # ps)) = Some t"
    by blast
  let ?events = "concat (map (\<lambda>(tok, b).
                      [Sent (GetQueryResultsCommand (AthenaQuery.QueryExecutionId this) tok), Batch b])
                    (zip (None # map GetQueryResultsCommandOutput.NextToken (p1 # ps))
                         (b1 # bs)))"
  let ?w' = "w\<lparr>expectedGetResults := p # rest, trace := trace w @ ?events\<rparr>"
  have q': "expectedGetResults ?w' = p # rest"
    by simp
  have "length (b1 # bs) \<le> length (None # map GetQueryResultsCommandOutput.NextToken (p1 # ps))"
    using len by simp
  from batchesOf_pages [OF this]
  have "batchesOf ?events = b1 # bs" .
  then have hist: "batchesOf (trace ?w') = batchesOf (trace w) @ b1 # bs"
    by (simp add: batchesOf_append del: zip_Cons_Cons)
  have "getResultsInBatches this w =
      (Inl (BatchProcessorRejected reason),
       ?w'\<lparr>expectedGetResults := rest,
           trace := trace ?w' @
             [Sent (GetQueryResultsCommand (AthenaQuery.QueryExecutionId this) (Some t)),
              Batch b]\<rparr>)"
    unfolding getResultsInBatches_pages [OF q p1 conv1 good toks acc] t
    using whileNextToken_step [OF q' assms(4) conv, of this t] rej
    unfolding hist by simp
  then show "processQuery this0 w0 =
      (Inl (BatchProcessorRejected reason), this,
       w\<lparr>expectedGetResults := rest,
         trace := trace w @
           concat (map (\<lambda>(tok, b).
               [Sent (GetQueryResultsCommand (AthenaQuery.QueryExecutionId this) tok),
                Batch b])
             (zip (None # map GetQueryResultsCommandOutput.NextToken (p1 # ps))
                  (b1 # bs))) @
           [Sent (GetQueryResultsCommand (AthenaQuery.QueryExecutionId this)
                    (GetQueryResultsCommandOutput.NextToken (last (p1 # ps)))),
            Batch b]\<rparr>)"
    by (simp add: processQuery_retrieval(1) [OF assms(1-3)] t del: last.simps zip_Cons_Cons)
qed

text \<open>
  Two instances. A batch processor that rejects its first call: the run fails after the
  first page, and the second page is never requested. And a batch processor that rejects
  its second call: the first batch is delivered, the second page is fetched with the
  first page's token, the run fails with the rejection, and the third page, announced by
  the second page's token, is never requested.
\<close>

theorem processQuery_batchProcessor_rejects_witness:
  "processQuery
     \<lparr>query = ''select 1'', batchProcessor = (\<lambda>earlier rows. Some ''boom''),
      QueryExecutionId = None, sleepMs = 0\<rparr>
     \<lparr>expectedStartQueries =
        [\<lparr>StartQueryExecutionCommandOutput.QueryExecutionId = Some ''abc-xyz''\<rparr>],
      expectedWaitForSuccessfulResults =
        [\<lparr>QueryExecution = Some \<lparr>Status = Some \<lparr>State = Some ''SUCCEEDED''\<rparr>\<rparr>\<rparr>],
      expectedGetResults =
        [\<lparr>httpStatusCode = Some 200,
          ResultSet = Some \<lparr>Rows = Some
            [\<lparr>Row.Data = Some [\<lparr>VarCharValue = Some ''n''\<rparr>]\<rparr>,
             \<lparr>Row.Data = Some [\<lparr>VarCharValue = Some ''1''\<rparr>]\<rparr>]\<rparr>,
          GetQueryResultsCommandOutput.NextToken = Some ''NextResult1''\<rparr>,
         \<lparr>httpStatusCode = Some 200,
          ResultSet = Some \<lparr>Rows = Some [\<lparr>Row.Data = Some [\<lparr>VarCharValue = Some ''2''\<rparr>]\<rparr>]\<rparr>,
          GetQueryResultsCommandOutput.NextToken = None\<rparr>],
      trace = []\<rparr>
   = (Inl (BatchProcessorRejected ''boom''),
      \<lparr>query = ''select 1'', batchProcessor = (\<lambda>earlier rows. Some ''boom''),
       QueryExecutionId = Some ''abc-xyz'', sleepMs = 0\<rparr>,
      \<lparr>expectedStartQueries = [], expectedWaitForSuccessfulResults = [],
       expectedGetResults =
         [\<lparr>httpStatusCode = Some 200,
           ResultSet = Some \<lparr>Rows = Some [\<lparr>Row.Data = Some [\<lparr>VarCharValue = Some ''2''\<rparr>]\<rparr>]\<rparr>,
           GetQueryResultsCommandOutput.NextToken = None\<rparr>],
       trace = [Sent (StartQueryExecutionCommand ''select 1''),
                Sent (GetQueryExecutionCommand (Some ''abc-xyz'')),
                Sent (GetQueryResultsCommand (Some ''abc-xyz'') None),
                Batch [[(''n'', Some ''1'')]]]\<rparr>)
   \<and> processQuery
     \<lparr>query = ''select 1'',
      batchProcessor = (\<lambda>earlier rows. if length earlier = 1 then Some ''boom'' else None),
      QueryExecutionId = None, sleepMs = 0\<rparr>
     \<lparr>expectedStartQueries =
        [\<lparr>StartQueryExecutionCommandOutput.QueryExecutionId = Some ''abc-xyz''\<rparr>],
      expectedWaitForSuccessfulResults =
        [\<lparr>QueryExecution = Some \<lparr>Status = Some \<lparr>State = Some ''SUCCEEDED''\<rparr>\<rparr>\<rparr>],
      expectedGetResults =
        [\<lparr>httpStatusCode = Some 200,
          ResultSet = Some \<lparr>Rows = Some
            [\<lparr>Row.Data = Some [\<lparr>VarCharValue = Some ''n''\<rparr>]\<rparr>,
             \<lparr>Row.Data = Some [\<lparr>VarCharValue = Some ''1''\<rparr>]\<rparr>]\<rparr>,
          GetQueryResultsCommandOutput.NextToken = Some ''NextResult1''\<rparr>,
         \<lparr>httpStatusCode = Some 200,
          ResultSet = Some \<lparr>Rows = Some [\<lparr>Row.Data = Some [\<lparr>VarCharValue = Some ''2''\<rparr>]\<rparr>]\<rparr>,
          GetQueryResultsCommandOutput.NextToken = Some ''NextResult2''\<rparr>,
         \<lparr>httpStatusCode = Some 200,
          ResultSet = Some \<lparr>Rows = Some [\<lparr>Row.Data = Some [\<lparr>VarCharValue = Some ''3''\<rparr>]\<rparr>]\<rparr>,
          GetQueryResultsCommandOutput.NextToken = None\<rparr>],
      trace = []\<rparr>
   = (Inl (BatchProcessorRejected ''boom''),
      \<lparr>query = ''select 1'',
       batchProcessor = (\<lambda>earlier rows. if length earlier = 1 then Some ''boom'' else None),
       QueryExecutionId = Some ''abc-xyz'', sleepMs = 0\<rparr>,
      \<lparr>expectedStartQueries = [], expectedWaitForSuccessfulResults = [],
       expectedGetResults =
         [\<lparr>httpStatusCode = Some 200,
           ResultSet = Some \<lparr>Rows = Some [\<lparr>Row.Data = Some [\<lparr>VarCharValue = Some ''3''\<rparr>]\<rparr>]\<rparr>,
           GetQueryResultsCommandOutput.NextToken = None\<rparr>],
       trace = [Sent (StartQueryExecutionCommand ''select 1''),
                Sent (GetQueryExecutionCommand (Some ''abc-xyz'')),
                Sent (GetQueryResultsCommand (Some ''abc-xyz'') None),
                Batch [[(''n'', Some ''1'')]],
                Sent (GetQueryResultsCommand (Some ''abc-xyz'') (Some ''NextResult1'')),
                Batch [[(''n'', Some ''2'')]]]\<rparr>)"
proof
  let ?bp = "\<lambda>(earlier :: JsonValue list list) (rows :: JsonValue list). Some ''boom''"
  let ?fresh = "\<lparr>query = ''select 1'', batchProcessor = ?bp,
                 QueryExecutionId = None, sleepMs = 0\<rparr> :: AthenaQuery"
  let ?runner = "\<lparr>query = ''select 1'', batchProcessor = ?bp,
                  QueryExecutionId = Some ''abc-xyz'', sleepMs = 0\<rparr> :: AthenaQuery"
  let ?started = "\<lparr>StartQueryExecutionCommandOutput.QueryExecutionId = Some ''abc-xyz''\<rparr>"
  let ?succeeded = "\<lparr>QueryExecution = Some \<lparr>Status = Some \<lparr>State = Some ''SUCCEEDED''\<rparr>\<rparr>\<rparr>"
  let ?p1 = "\<lparr>httpStatusCode = Some 200,
          ResultSet = Some \<lparr>Rows = Some
            [\<lparr>Row.Data = Some [\<lparr>VarCharValue = Some ''n''\<rparr>]\<rparr>,
             \<lparr>Row.Data = Some [\<lparr>VarCharValue = Some ''1''\<rparr>]\<rparr>]\<rparr>,
          GetQueryResultsCommandOutput.NextToken = Some ''NextResult1''\<rparr>"
  let ?p2 = "\<lparr>httpStatusCode = Some 200,
          ResultSet = Some \<lparr>Rows = Some [\<lparr>Row.Data = Some [\<lparr>VarCharValue = Some ''2''\<rparr>]\<rparr>]\<rparr>,
          GetQueryResultsCommandOutput.NextToken = None\<rparr>"
  let ?b1 = "[[(''n'', Some ''1'')]]"
  let ?begin = "\<lparr>expectedStartQueries = [?started],
                 expectedWaitForSuccessfulResults = [?succeeded],
                 expectedGetResults = [?p1, ?p2], trace = []\<rparr>"
  let ?w1 = "\<lparr>expectedStartQueries = [],
              expectedWaitForSuccessfulResults = [?succeeded],
              expectedGetResults = [?p1, ?p2],
              trace = [Sent (StartQueryExecutionCommand ''select 1'')]\<rparr>"
  let ?w = "\<lparr>expectedStartQueries = [], expectedWaitForSuccessfulResults = [],
             expectedGetResults = [?p1, ?p2],
             trace = [Sent (StartQueryExecutionCommand ''select 1''),
                      Sent (GetQueryExecutionCommand (Some ''abc-xyz''))]\<rparr>"
  have names: "headerFieldNames (responseRows ?p1) = [''n'']"
    by (simp add: headerFieldNames_def headerData_def responseRows_def enumerate_eq_zip)
  have 1: "AthenaQuery.QueryExecutionId ?fresh = None"
    by simp
  have 2: "startQuery ?fresh ?begin = (Inr (), ?runner, ?w1)"
    by (simp add: startQuery_def sendStartQueryExecution_def)
  have 3: "waitForSuccessfulResult ?runner ?w1 = (Inr (), ?w)"
    by (simp add: waitForSuccessfulResult_def sendGetQueryExecution_def whileNotTerminal.simps
          getState_def isTerminalState_def)
  have 4: "httpStatusCode ?p1 = Some 200"
    by simp
  have 5: "expectedGetResults ?w = ?p1 # [?p2]"
    by simp
  have 6: "rowsToData (map_option (drop 1) (responseRows ?p1))
             (headerFieldNames (responseRows ?p1)) = Inr ?b1"
    unfolding names by (simp add: rowsToData_def responseRows_def rowToJsonValue_def setProperty_def)
  have 7: "batchProcessor ?runner (batchesOf (trace ?w)) ?b1 = Some ''boom''"
    by simp
  from processQuery_batchProcessor_rejects
         [OF 1 2 3 4, THEN conjunct1, rule_format, OF conjI [OF 5 conjI [OF 6 7]]]
  show "processQuery ?fresh ?begin =
      (Inl (BatchProcessorRejected ''boom''), ?runner,
       \<lparr>expectedStartQueries = [], expectedWaitForSuccessfulResults = [],
        expectedGetResults = [?p2],
        trace = [Sent (StartQueryExecutionCommand ''select 1''),
                 Sent (GetQueryExecutionCommand (Some ''abc-xyz'')),
                 Sent (GetQueryResultsCommand (Some ''abc-xyz'') None),
                 Batch ?b1]\<rparr>)"
    by simp
next
  let ?bp = "\<lambda>(earlier :: JsonValue list list) (rows :: JsonValue list).
               if length earlier = 1 then Some ''boom'' else None"
  let ?fresh = "\<lparr>query = ''select 1'', batchProcessor = ?bp,
                 QueryExecutionId = None, sleepMs = 0\<rparr> :: AthenaQuery"
  let ?runner = "\<lparr>query = ''select 1'', batchProcessor = ?bp,
                  QueryExecutionId = Some ''abc-xyz'', sleepMs = 0\<rparr> :: AthenaQuery"
  let ?started = "\<lparr>StartQueryExecutionCommandOutput.QueryExecutionId = Some ''abc-xyz''\<rparr>"
  let ?succeeded = "\<lparr>QueryExecution = Some \<lparr>Status = Some \<lparr>State = Some ''SUCCEEDED''\<rparr>\<rparr>\<rparr>"
  let ?p1 = "\<lparr>httpStatusCode = Some 200,
          ResultSet = Some \<lparr>Rows = Some
            [\<lparr>Row.Data = Some [\<lparr>VarCharValue = Some ''n''\<rparr>]\<rparr>,
             \<lparr>Row.Data = Some [\<lparr>VarCharValue = Some ''1''\<rparr>]\<rparr>]\<rparr>,
          GetQueryResultsCommandOutput.NextToken = Some ''NextResult1''\<rparr>"
  let ?p2 = "\<lparr>httpStatusCode = Some 200,
          ResultSet = Some \<lparr>Rows = Some [\<lparr>Row.Data = Some [\<lparr>VarCharValue = Some ''2''\<rparr>]\<rparr>]\<rparr>,
          GetQueryResultsCommandOutput.NextToken = Some ''NextResult2''\<rparr>"
  let ?p3 = "\<lparr>httpStatusCode = Some 200,
          ResultSet = Some \<lparr>Rows = Some [\<lparr>Row.Data = Some [\<lparr>VarCharValue = Some ''3''\<rparr>]\<rparr>]\<rparr>,
          GetQueryResultsCommandOutput.NextToken = None\<rparr>"
  let ?b1 = "[[(''n'', Some ''1'')]]"
  let ?b2 = "[[(''n'', Some ''2'')]]"
  let ?begin = "\<lparr>expectedStartQueries = [?started],
                 expectedWaitForSuccessfulResults = [?succeeded],
                 expectedGetResults = [?p1, ?p2, ?p3], trace = []\<rparr>"
  let ?w1 = "\<lparr>expectedStartQueries = [],
              expectedWaitForSuccessfulResults = [?succeeded],
              expectedGetResults = [?p1, ?p2, ?p3],
              trace = [Sent (StartQueryExecutionCommand ''select 1'')]\<rparr>"
  let ?w = "\<lparr>expectedStartQueries = [], expectedWaitForSuccessfulResults = [],
             expectedGetResults = [?p1, ?p2, ?p3],
             trace = [Sent (StartQueryExecutionCommand ''select 1''),
                      Sent (GetQueryExecutionCommand (Some ''abc-xyz''))]\<rparr>"
  have names: "headerFieldNames (responseRows ?p1) = [''n'']"
    by (simp add: headerFieldNames_def headerData_def responseRows_def enumerate_eq_zip)
  have 1: "AthenaQuery.QueryExecutionId ?fresh = None"
    by simp
  have 2: "startQuery ?fresh ?begin = (Inr (), ?runner, ?w1)"
    by (simp add: startQuery_def sendStartQueryExecution_def)
  have 3: "waitForSuccessfulResult ?runner ?w1 = (Inr (), ?w)"
    by (simp add: waitForSuccessfulResult_def sendGetQueryExecution_def whileNotTerminal.simps
          getState_def isTerminalState_def)
  have 4: "httpStatusCode ?p2 = Some 200"
    by simp
  have 5: "expectedGetResults ?w = ?p1 # [] @ ?p2 # [?p3]"
    by simp
  have 6: "\<forall>p\<in>set (?p1 # []). httpStatusCode p = Some 200 \<and>
             GetQueryResultsCommandOutput.NextToken p \<noteq> None"
    by simp
  have 7: "rowsToData (map_option (drop 1) (responseRows ?p1))
             (headerFieldNames (responseRows ?p1)) = Inr ?b1"
    unfolding names by (simp add: rowsToData_def responseRows_def rowToJsonValue_def setProperty_def)
  have 8: "list_all2 (\<lambda>p b. rowsToData (responseRows p)
             (headerFieldNames (responseRows ?p1)) = Inr b) [] []"
    by simp
  have 9: "\<forall>i<length (?b1 # []).
             batchProcessor ?runner (batchesOf (trace ?w) @ take i (?b1 # [])) ((?b1 # []) ! i) = None"
    by simp
  have 10: "rowsToData (responseRows ?p2) (headerFieldNames (responseRows ?p1)) = Inr ?b2"
    unfolding names by (simp add: rowsToData_def responseRows_def rowToJsonValue_def setProperty_def)
  have 11: "batchProcessor ?runner (batchesOf (trace ?w) @ ?b1 # []) ?b2 = Some ''boom''"
    by simp
  from processQuery_batchProcessor_rejects
         [OF 1 2 3 4, THEN conjunct2, rule_format,
          OF conjI [OF 5 conjI [OF 6 conjI [OF 7 conjI [OF 8 conjI [OF 9 conjI [OF 10 11]]]]]]]
  show "processQuery ?fresh ?begin =
      (Inl (BatchProcessorRejected ''boom''), ?runner,
       \<lparr>expectedStartQueries = [], expectedWaitForSuccessfulResults = [],
        expectedGetResults = [?p3],
        trace = [Sent (StartQueryExecutionCommand ''select 1''),
                 Sent (GetQueryExecutionCommand (Some ''abc-xyz'')),
                 Sent (GetQueryResultsCommand (Some ''abc-xyz'') None),
                 Batch ?b1,
                 Sent (GetQueryResultsCommand (Some ''abc-xyz'') (Some ''NextResult1'')),
                 Batch ?b2]\<rparr>)"
    by simp
qed

end
